theory Spec2Isabelle
  imports Main "HOL-Library.Word"
begin

unbundle bit_operations_syntax

section \<open>Host values: buffers, big numbers, thrown errors\<close>

text \<open>
  A Node \<open>Buffer\<close> is a sequence of bytes; a \<open>PublicKey\<close> of web3.js is the buffer of its
  bytes. A \<open>BN\<close> of bn.js is an unbounded integer with a sign. A thrown JavaScript
  value is data: \<open>Error\<close>, \<open>RangeError\<close> and \<open>TypeError\<close> carry their message, \<open>Thrown\<close>
  stands for a thrown value (other than \<open>null\<close> and \<open>undefined\<close>) that is no \<open>Error\<close>
  object and has no message. A computation that may throw returns \<open>js_error + 'a\<close>, with
  \<open>Inl\<close> for what was thrown.
\<close>

type_synonym byte = "8 word"
type_synonym Buffer = "byte list"
type_synonym PublicKey = Buffer
type_synonym BN = int

datatype js_error = Error string | RangeError string | TypeError string | Thrown

definition error_message :: "js_error \<Rightarrow> string option" where
  "error_message e =
     (case e of Error m \<Rightarrow> Some m | RangeError m \<Rightarrow> Some m | TypeError m \<Rightarrow> Some m
      | Thrown \<Rightarrow> None)"

definition and_then :: "'x + 'a \<Rightarrow> ('a \<Rightarrow> 'x + 'r) \<Rightarrow> 'x + 'r" where
  "and_then r k = (case r of Inl e \<Rightarrow> Inl e | Inr v \<Rightarrow> k v)"

text \<open>\<open>Buffer.from(str)\<close> on the ASCII literals of the source: one byte per character.\<close>

definition Buffer_from :: "string \<Rightarrow> Buffer" where
  "Buffer_from s = map (\<lambda>c. of_nat (of_char c)) s"

text \<open>\<open>String.prototype.includes\<close>.\<close>

fun startsWith :: "string \<Rightarrow> string \<Rightarrow> bool" where
  "startsWith s [] = True"
| "startsWith [] (c # cs) = False"
| "startsWith (x # xs) (c # cs) = (x = c \<and> startsWith xs cs)"

fun String_includes :: "string \<Rightarrow> string \<Rightarrow> bool" where
  "String_includes [] sub = startsWith [] sub"
| "String_includes (x # xs) sub = (startsWith (x # xs) sub \<or> String_includes xs sub)"

text \<open>\<open>BN.toString()\<close>, base 10.\<close>

fun digits10 :: "nat \<Rightarrow> string" where
  "digits10 n = (if n < 10 then [''0123456789'' ! n]
                 else digits10 (n div 10) @ [''0123456789'' ! (n mod 10)])"

declare digits10.simps [simp del]

definition BN_toString :: "BN \<Rightarrow> string" where
  "BN_toString x = (if x < 0 then CHR ''-'' # digits10 (nat (- x)) else digits10 (nat x))"

text \<open>
  \<open>BN.byteLength()\<close> is the number of bytes of the magnitude (0 for zero), and
  \<open>x.toArrayLike(Buffer, 'le', length)\<close> writes the magnitude of \<open>x\<close>, least significant
  byte first, into \<open>length\<close> bytes (the sign is not written); bn.js asserts that the
  magnitude fits and throws a plain \<open>Error\<close> otherwise. A zero \<open>length\<close> stands for the
  omitted argument.
\<close>

fun byteLength :: "nat \<Rightarrow> nat" where
  "byteLength x = (if x = 0 then 0 else Suc (byteLength (x div 256)))"

declare byteLength.simps [simp del]

primrec le_bytes :: "nat \<Rightarrow> nat \<Rightarrow> Buffer" where
  "le_bytes 0 x = []"
| "le_bytes (Suc n) x = of_nat (x mod 256) # le_bytes n (x div 256)"

definition be_bytes :: "nat \<Rightarrow> nat \<Rightarrow> Buffer" where
  "be_bytes n x = rev (le_bytes n x)"

text \<open>The number a buffer holds when read least significant byte first.\<close>

primrec le_value :: "Buffer \<Rightarrow> nat" where
  "le_value [] = 0"
| "le_value (b # bs) = unat b + 256 * le_value bs"

definition toArrayLike_le :: "BN \<Rightarrow> nat \<Rightarrow> js_error + Buffer" where
  "toArrayLike_le x len =
     (let byteLen = byteLength (nat \<bar>x\<bar>);
          reqLength = (if len = 0 then max 1 byteLen else len)
      in if byteLen \<le> reqLength then Inr (le_bytes reqLength (nat \<bar>x\<bar>))
         else Inl (Error ''byte array longer than desired length''))"

text \<open>
  \<open>buf.writeUInt32LE(v)\<close> and \<open>buf.writeUInt16LE(v)\<close> on a fresh buffer of that size:
  Node throws a \<open>RangeError\<close> when \<open>v\<close> does not fit.
\<close>

definition writeUInt32LE :: "nat \<Rightarrow> js_error + Buffer" where
  "writeUInt32LE v = (if v < 2 ^ 32 then Inr (le_bytes 4 v)
                      else Inl (RangeError ''ERR_OUT_OF_RANGE''))"

definition writeUInt16LE :: "nat \<Rightarrow> js_error + Buffer" where
  "writeUInt16LE v = (if v < 2 ^ 16 then Inr (le_bytes 2 v)
                      else Inl (RangeError ''ERR_OUT_OF_RANGE''))"

text \<open>
  Hexadecimal text: \<open>hex_encode\<close> is how js-sha3 prints a digest (lower case), and
  \<open>Buffer.from(text, 'hex')\<close> reads pairs of hexadecimal digits and stops at the first
  pair that is not one.
\<close>

definition hex_of_byte :: "byte \<Rightarrow> string" where
  "hex_of_byte b = [''0123456789abcdef'' ! (unat b div 16), ''0123456789abcdef'' ! (unat b mod 16)]"

definition hex_encode :: "Buffer \<Rightarrow> string" where
  "hex_encode bs = concat (map hex_of_byte bs)"

definition hex_value :: "char \<Rightarrow> nat option" where
  "hex_value c =
     (let n = of_char c in
      if 48 \<le> n \<and> n \<le> 57 then Some (n - 48)
      else if 97 \<le> n \<and> n \<le> 102 then Some (n - 87)
      else if 65 \<le> n \<and> n \<le> 70 then Some (n - 55)
      else None)"

fun Buffer_from_hex :: "string \<Rightarrow> Buffer" where
  "Buffer_from_hex (c1 # c2 # cs) =
     (case hex_value c1 of None \<Rightarrow> []
      | Some h \<Rightarrow> (case hex_value c2 of None \<Rightarrow> []
         | Some l \<Rightarrow> of_nat (16 * h + l) # Buffer_from_hex cs))"
| "Buffer_from_hex cs = []"

section \<open>Keccak-256 as js-sha3 computes it (\<open>sha3.keccak_256\<close>)\<close>

text \<open>
  The sponge over Keccak-f[1600] with rate 136 bytes and the original Keccak padding
  (first padding byte 1, last 128). A lane is a 64-bit value, kept as a natural number
  below \<open>2 ^ 64\<close>; the state is the list of its 25 lanes, lane \<open>(x, y)\<close> at index
  \<open>x + 5 * y\<close>.
\<close>

type_synonym lane = nat

definition rotl64 :: "nat \<Rightarrow> lane \<Rightarrow> lane" where
  "rotl64 n w = push_bit n (take_bit (64 - n) w) + drop_bit (64 - n) w"

definition not64 :: "lane \<Rightarrow> lane" where
  "not64 w = (2 ^ 64 - 1) - w"

definition rho_offsets :: "nat list" where
  "rho_offsets = [0, 1, 62, 28, 27, 36, 44, 6, 55, 20, 3, 10, 43, 25, 39,
                  41, 45, 15, 21, 8, 18, 2, 61, 56, 14]"

definition round_constants :: "lane list" where
  "round_constants =
    [1, 32898, 9223372036854808714, 9223372039002292224, 32907, 2147483649,
     9223372039002292353, 9223372036854808585, 138, 136, 2147516425, 2147483658,
     2147516555, 9223372036854775947, 9223372036854808713, 9223372036854808579,
     9223372036854808578, 9223372036854775936, 32778, 9223372039002259466,
     9223372039002292353, 9223372036854808704, 2147483649, 9223372039002292232]"

definition theta_c :: "lane list \<Rightarrow> lane list" where
  "theta_c a =
     map (\<lambda>x. a ! x XOR a ! (x + 5) XOR a ! (x + 10) XOR a ! (x + 15) XOR a ! (x + 20)) [0..<5]"

definition theta_d :: "lane list \<Rightarrow> lane list" where
  "theta_d c = map (\<lambda>x. c ! ((x + 4) mod 5) XOR rotl64 1 (c ! ((x + 1) mod 5))) [0..<5]"

definition theta_apply :: "lane list \<Rightarrow> lane list \<Rightarrow> lane list" where
  "theta_apply a d = map (\<lambda>i. a ! i XOR d ! (i mod 5)) [0..<25]"

definition theta :: "lane list \<Rightarrow> lane list" where
  "theta a = theta_apply a (theta_d (theta_c a))"

text \<open>Lane \<open>(X, Y)\<close> of the result is lane \<open>(x, y) = ((X + 3 * Y) mod 5, X)\<close> rotated.\<close>

definition rho_pi :: "lane list \<Rightarrow> lane list" where
  "rho_pi a = map (\<lambda>j. let X = j mod 5; Y = j div 5; i = ((X + 3 * Y) mod 5) + 5 * X
                         in rotl64 (rho_offsets ! i) (a ! i)) [0..<25]"

definition chi :: "lane list \<Rightarrow> lane list" where
  "chi b = map (\<lambda>j. let x = j mod 5; y = j div 5
                     in b ! j XOR (not64 (b ! ((x + 1) mod 5 + 5 * y))
                                     AND b ! ((x + 2) mod 5 + 5 * y))) [0..<25]"

definition iota :: "nat \<Rightarrow> lane list \<Rightarrow> lane list" where
  "iota r a = a[0 := a ! 0 XOR round_constants ! r]"

definition keccak_round :: "nat \<Rightarrow> lane list \<Rightarrow> lane list" where
  "keccak_round r a = iota r (chi (rho_pi (theta a)))"

fun keccak_rounds :: "nat list \<Rightarrow> lane list \<Rightarrow> lane list" where
  "keccak_rounds [] a = a"
| "keccak_rounds (r # rs) a = keccak_rounds rs (keccak_round r a)"

definition keccak_f :: "lane list \<Rightarrow> lane list" where
  "keccak_f a = keccak_rounds [0..<24] a"

definition keccak_pad :: "Buffer \<Rightarrow> Buffer" where
  "keccak_pad m = (let q = 136 - length m mod 136 in
      if q = 1 then m @ [129] else m @ [1] @ replicate (q - 2) 0 @ [128])"

fun lanes_of_bytes :: "Buffer \<Rightarrow> lane list" where
  "lanes_of_bytes (b0 # b1 # b2 # b3 # b4 # b5 # b6 # b7 # bs) =
     (unat b0 + 256 * (unat b1 + 256 * (unat b2 + 256 * (unat b3 + 256 * (unat b4 +
        256 * (unat b5 + 256 * (unat b6 + 256 * unat b7))))))) # lanes_of_bytes bs"
| "lanes_of_bytes bs = []"

definition xor_block :: "lane list \<Rightarrow> lane list \<Rightarrow> lane list" where
  "xor_block s ls = map2 (XOR) s (ls @ replicate (25 - length ls) 0)"

function absorb :: "lane list \<Rightarrow> Buffer \<Rightarrow> lane list" where
  "absorb s p = (if length p < 136 then s
                 else absorb (keccak_f (xor_block s (lanes_of_bytes (take 136 p)))) (drop 136 p))"
  by pat_completeness auto
termination
  by (relation "measure (\<lambda>(s, p). length p)") auto

declare absorb.simps [simp del]

definition squeeze32 :: "lane list \<Rightarrow> Buffer" where
  "squeeze32 s = concat (map (le_bytes 8) (take 4 s))"

definition keccak_256_digest :: "Buffer \<Rightarrow> Buffer" where
  "keccak_256_digest m = squeeze32 (absorb (replicate 25 0) (keccak_pad m))"

definition keccak_256 :: "Buffer \<Rightarrow> string" where
  "keccak_256 m = hex_encode (keccak_256_digest m)"

section \<open>Signature utilities of the SDK (packages/via-labs-sdk/src/signatures.ts)\<close>

record MessageSignature =
  signature :: Buffer
  signer :: PublicKey

definition encodeLengthPrefixed :: "Buffer \<Rightarrow> js_error + Buffer" where
  "encodeLengthPrefixed data =
     and_then (writeUInt32LE (length data)) (\<lambda>lengthBuffer.
       Inr (concat [lengthBuffer, data]))"

text \<open>
  \<open>createMessageHash_allData\<close> is the local \<open>allData\<close> of \<open>createMessageHash\<close>: the seven
  buffers pushed on \<open>encoded\<close>, in the order of the pushes, concatenated.
\<close>

definition createMessageHash_allData ::
  "BN \<Rightarrow> BN \<Rightarrow> BN \<Rightarrow> Buffer \<Rightarrow> Buffer \<Rightarrow> Buffer \<Rightarrow> Buffer \<Rightarrow> js_error + Buffer" where
  "createMessageHash_allData txId sourceChainId destChainId sender recipient onChainData
       offChainData =
     and_then (toArrayLike_le txId 16) (\<lambda>e1.
     and_then (toArrayLike_le sourceChainId 8) (\<lambda>e2.
     and_then (toArrayLike_le destChainId 8) (\<lambda>e3.
     and_then (encodeLengthPrefixed sender) (\<lambda>e4.
     and_then (encodeLengthPrefixed recipient) (\<lambda>e5.
     and_then (encodeLengthPrefixed onChainData) (\<lambda>e6.
     and_then (encodeLengthPrefixed offChainData) (\<lambda>e7.
       Inr (concat [e1, e2, e3, e4, e5, e6, e7]))))))))"

definition createMessageHash ::
  "BN \<Rightarrow> BN \<Rightarrow> BN \<Rightarrow> Buffer \<Rightarrow> Buffer \<Rightarrow> Buffer \<Rightarrow> Buffer \<Rightarrow> js_error + Buffer" where
  "createMessageHash txId sourceChainId destChainId sender recipient onChainData offChainData =
     and_then (createMessageHash_allData txId sourceChainId destChainId sender recipient
                 onChainData offChainData) (\<lambda>allData.
       let hash = keccak_256 allData in Inr (Buffer_from_hex hash))"

text \<open>
  A transaction is the list of its instructions, in the order \<open>Transaction.add\<close> received
  them. An instruction is either the Ed25519 program's verification of one signature
  (public key, message, signature), or a call of a method of the gateway program with its
  arguments and its named accounts. \<open>Ed25519Program.createInstructionWithPublicKey\<close>
  asserts the sizes of key and signature.
\<close>

datatype method_args =
  MessageArgs BN BN BN Buffer Buffer Buffer Buffer "(Buffer \<times> PublicKey) list"

datatype instruction =
    Ed25519Instruction PublicKey Buffer Buffer
  | MethodInstruction string method_args "(string \<times> PublicKey) list"

definition createEd25519Instruction ::
  "Buffer \<Rightarrow> PublicKey \<Rightarrow> Buffer \<Rightarrow> js_error + instruction" where
  "createEd25519Instruction sigBytes publicKey message =
     (if length publicKey \<noteq> 32 then Inl (Error ''Public Key must be 32 bytes'')
      else if length sigBytes \<noteq> 64 then Inl (Error ''Signature must be 64 bytes'')
      else Inr (Ed25519Instruction publicKey message sigBytes))"

definition formatSignaturesForAnchor :: "MessageSignature list \<Rightarrow> (Buffer \<times> PublicKey) list" where
  "formatSignaturesForAnchor signatures = map (\<lambda>sig. (signature sig, signer sig)) signatures"

section \<open>The message hash on the objects of the heap\<close>

text \<open>
  In the running program a \<open>Buffer\<close> is an object: the arguments \<open>sender\<close>, \<open>recipient\<close>,
  \<open>onChainData\<close> and \<open>offChainData\<close> of \<open>createMessageHash\<close> are references, two of them may
  be the same object, and every \<open>toArrayLike\<close>, \<open>Buffer.alloc\<close>, \<open>Buffer.concat\<close> and
  \<open>Buffer.from\<close> makes a new object, which \<open>writeUInt32LE\<close> then writes into. The heap is the
  list of the buffers made so far; a reference is the position of its buffer, and a new buffer
  goes to the end. A call runs from a heap to what it returns or throws, and the heap it
  leaves. Big numbers are values here (\<open>toArrayLike\<close> reads the number and writes only the
  new buffer), and so is the text that \<open>sha3.keccak_256\<close> returns: js-sha3 makes a new hasher
  for every call and reads the bytes of its argument.
\<close>

type_synonym ref = nat
type_synonym heap = "Buffer list"
type_synonym 'a run = "heap \<Rightarrow> (js_error + 'a) \<times> heap"

definition run_then :: "'a run \<Rightarrow> ('a \<Rightarrow> 'r run) \<Rightarrow> 'r run" where
  "run_then m k H = (case m H of (Inl e, H') \<Rightarrow> (Inl e, H') | (Inr v, H') \<Rightarrow> k v H')"

definition new_Buffer :: "Buffer \<Rightarrow> ref run" where
  "new_Buffer bytes H = (Inr (length H), H @ [bytes])"

text \<open>\<open>Buffer.alloc(n)\<close>: a new buffer of \<open>n\<close> zero bytes.\<close>

definition Buffer_alloc :: "nat \<Rightarrow> ref run" where
  "Buffer_alloc n = new_Buffer (replicate n 0)"

text \<open>\<open>buf.length\<close>.\<close>

definition Buffer_length :: "ref \<Rightarrow> nat run" where
  "Buffer_length buf H = (Inr (length (H ! buf)), H)"

text \<open>
  \<open>buf.writeUInt32LE(v)\<close> overwrites the first four bytes of \<open>buf\<close>; Node checks the value,
  then that the buffer has four bytes.
\<close>

definition buf_writeUInt32LE :: "ref \<Rightarrow> nat \<Rightarrow> unit run" where
  "buf_writeUInt32LE buf v H =
     (if \<not> v < 2 ^ 32 then (Inl (RangeError ''ERR_OUT_OF_RANGE''), H)
      else if length (H ! buf) < 4 then (Inl (RangeError ''ERR_BUFFER_OUT_OF_BOUNDS''), H)
      else (Inr (), H[buf := le_bytes 4 v @ drop 4 (H ! buf)]))"

text \<open>\<open>Buffer.concat(list)\<close>: a new buffer holding the bytes of the listed buffers.\<close>

definition Buffer_concat :: "ref list \<Rightarrow> ref run" where
  "Buffer_concat bufs H = new_Buffer (concat (map (\<lambda>b. H ! b) bufs)) H"

text \<open>\<open>x.toArrayLike(Buffer, 'le', len)\<close>: bn.js asserts the size, then makes the buffer.\<close>

definition BN_toArrayLike_le :: "BN \<Rightarrow> nat \<Rightarrow> ref run" where
  "BN_toArrayLike_le x len H =
     (case toArrayLike_le x len of Inl e \<Rightarrow> (Inl e, H) | Inr bytes \<Rightarrow> new_Buffer bytes H)"

definition sha3_keccak_256 :: "ref \<Rightarrow> string run" where
  "sha3_keccak_256 buf H = (Inr (keccak_256 (H ! buf)), H)"

text \<open>\<open>Buffer.from(text, 'hex')\<close>.\<close>

definition Buffer_from_hex_new :: "string \<Rightarrow> ref run" where
  "Buffer_from_hex_new hex = new_Buffer (Buffer_from_hex hex)"

definition encodeLengthPrefixed_heap :: "ref \<Rightarrow> ref run" where
  "encodeLengthPrefixed_heap data =
     run_then (Buffer_alloc 4) (\<lambda>lengthBuffer.
     run_then (Buffer_length data) (\<lambda>data_length.
     run_then (buf_writeUInt32LE lengthBuffer data_length) (\<lambda>_.
       Buffer_concat [lengthBuffer, data])))"

text \<open>The local array \<open>encoded\<close> is the list of the seven references pushed on it.\<close>

definition createMessageHash_heap ::
  "BN \<Rightarrow> BN \<Rightarrow> BN \<Rightarrow> ref \<Rightarrow> ref \<Rightarrow> ref \<Rightarrow> ref \<Rightarrow> ref run" where
  "createMessageHash_heap txId sourceChainId destChainId sender recipient onChainData
       offChainData =
     run_then (BN_toArrayLike_le txId 16) (\<lambda>e1.
     run_then (BN_toArrayLike_le sourceChainId 8) (\<lambda>e2.
     run_then (BN_toArrayLike_le destChainId 8) (\<lambda>e3.
     run_then (encodeLengthPrefixed_heap sender) (\<lambda>e4.
     run_then (encodeLengthPrefixed_heap recipient) (\<lambda>e5.
     run_then (encodeLengthPrefixed_heap onChainData) (\<lambda>e6.
     run_then (encodeLengthPrefixed_heap offChainData) (\<lambda>e7.
     run_then (Buffer_concat [e1, e2, e3, e4, e5, e6, e7]) (\<lambda>allData.
     run_then (sha3_keccak_256 allData) (\<lambda>hash.
       Buffer_from_hex_new hash)))))))))"

section \<open>SDK types and constants (types.ts, constants.ts)\<close>

datatype RegistryType = Via | Chain | Project

definition CHAIN_ID_BYTES :: nat where "CHAIN_ID_BYTES = 8"
definition TX_ID_BYTES :: nat where "TX_ID_BYTES = 16"

definition SOLANA_CHAIN_ID :: BN where "SOLANA_CHAIN_ID = 9999999999999999999"
definition AVALANCHE_CHAIN_ID :: BN where "AVALANCHE_CHAIN_ID = 43113"

text \<open>
  The validators test \<open>!chainId || chainId.isNeg()\<close>: an identifier that is \<open>null\<close> or
  \<open>undefined\<close> at run time is \<open>None\<close> here. The message interpolates
  \<open>chainId?.toString() ?? 'null'\<close>.
\<close>

definition id_toString :: "BN option \<Rightarrow> string" where
  "id_toString x = (case x of None \<Rightarrow> ''null'' | Some n \<Rightarrow> BN_toString n)"

definition validateChainId :: "BN option \<Rightarrow> js_error + unit" where
  "validateChainId chainId =
     (if chainId = None \<or> (case chainId of None \<Rightarrow> False | Some c \<Rightarrow> c < 0)
      then Inl (Error (''Invalid chain ID: '' @ id_toString chainId))
      else Inr ())"

definition validateTxId :: "BN option \<Rightarrow> js_error + unit" where
  "validateTxId txId =
     (if txId = None \<or> (case txId of None \<Rightarrow> False | Some t \<Rightarrow> t < 0)
      then Inl (Error (''Invalid TX ID: '' @ id_toString txId))
      else Inr ())"

text \<open>A method call on a value that may be \<open>null\<close>: JavaScript throws a \<open>TypeError\<close>.\<close>

definition toArrayLike_of :: "BN option \<Rightarrow> nat \<Rightarrow> js_error + Buffer" where
  "toArrayLike_of x len =
     (case x of None \<Rightarrow> Inl (TypeError ''Cannot read properties of null (reading toArrayLike)'')
      | Some n \<Rightarrow> toArrayLike_le n len)"

section \<open>Address derivation of the SDK (packages/via-labs-sdk/src/pdas.ts)\<close>

text \<open>
  \<open>PublicKey.findProgramAddressSync(seeds, programId)\<close> of web3.js returns the derived
  address and its bump; the source keeps the address. The function is a parameter of
  every derivation: nothing is assumed of it. The registry type is the string union
  \<open>"via" | "chain" | "project"\<close> of the source, so the \<open>default\<close> branch of
  \<open>registryTypeToDiscriminant\<close> has no input.
\<close>

type_synonym find_pda = "Buffer list \<Rightarrow> PublicKey \<Rightarrow> PublicKey \<times> nat"

fun registryTypeToDiscriminant :: "RegistryType \<Rightarrow> nat" where
  "registryTypeToDiscriminant Via = 0"
| "registryTypeToDiscriminant Chain = 1"
| "registryTypeToDiscriminant Project = 2"

definition getGatewayPda :: "find_pda \<Rightarrow> PublicKey \<Rightarrow> BN option \<Rightarrow> js_error + PublicKey" where
  "getGatewayPda fpa programId chainId =
     and_then (validateChainId chainId) (\<lambda>_.
     and_then (toArrayLike_of chainId CHAIN_ID_BYTES) (\<lambda>chainBytes.
       Inr (fst (fpa [Buffer_from ''gateway'', chainBytes] programId))))"

definition getSignerRegistryPda ::
  "find_pda \<Rightarrow> PublicKey \<Rightarrow> RegistryType \<Rightarrow> BN option \<Rightarrow> js_error + PublicKey" where
  "getSignerRegistryPda fpa programId registryType chainId =
     and_then (validateChainId chainId) (\<lambda>_.
       let discriminantBuffer = [of_nat (registryTypeToDiscriminant registryType)] in
       and_then (toArrayLike_of chainId CHAIN_ID_BYTES) (\<lambda>chainBytes.
         Inr (fst (fpa [Buffer_from ''signer_registry'', discriminantBuffer, chainBytes]
                    programId))))"

definition getCounterPda :: "find_pda \<Rightarrow> PublicKey \<Rightarrow> BN option \<Rightarrow> js_error + PublicKey" where
  "getCounterPda fpa programId sourceChainId =
     and_then (validateChainId sourceChainId) (\<lambda>_.
     and_then (toArrayLike_of sourceChainId CHAIN_ID_BYTES) (\<lambda>chainBytes.
       Inr (fst (fpa [Buffer_from ''counter'', chainBytes] programId))))"

definition getTxIdPda ::
  "find_pda \<Rightarrow> PublicKey \<Rightarrow> BN option \<Rightarrow> BN option \<Rightarrow> js_error + PublicKey" where
  "getTxIdPda fpa programId sourceChainId txId =
     and_then (validateChainId sourceChainId) (\<lambda>_.
     and_then (validateTxId txId) (\<lambda>_.
     and_then (toArrayLike_of sourceChainId CHAIN_ID_BYTES) (\<lambda>chainBytes.
     and_then (toArrayLike_of txId TX_ID_BYTES) (\<lambda>txBytes.
       Inr (fst (fpa [Buffer_from ''tx'', chainBytes, txBytes] programId))))))"

section \<open>Address derivation of the client scripts (client/pdas.ts)\<close>

text \<open>Modelled from the spec: the IDL of the on-chain program
  (target/idl/message_gateway_v4.json), from which \<open>program.coder.types.encode\<close> takes
  the variants of \<open>signerRegistryType\<close>, is not among the sources. Section 6 of the
  specification fixes the discriminants Via = 0, Chain = 1, Project = 2; Anchor's coder
  writes a variant without fields as the single byte of its discriminant.
\<close>

definition coder_types_encode :: "RegistryType \<Rightarrow> Buffer" where
  "coder_types_encode registryType =
     [of_nat (case registryType of Via \<Rightarrow> 0 | Chain \<Rightarrow> 1 | Project \<Rightarrow> 2)]"

definition client_getGatewayPda :: "find_pda \<Rightarrow> PublicKey \<Rightarrow> js_error + PublicKey" where
  "client_getGatewayPda fpa programId =
     and_then (toArrayLike_le SOLANA_CHAIN_ID 8) (\<lambda>chainBytes.
       Inr (fst (fpa [Buffer_from ''gateway'', chainBytes] programId)))"

definition client_getSignerRegistryPdaForChain ::
  "find_pda \<Rightarrow> PublicKey \<Rightarrow> RegistryType \<Rightarrow> BN \<Rightarrow> js_error + PublicKey" where
  "client_getSignerRegistryPdaForChain fpa programId registryType chainId =
     (let discriminantBuffer = coder_types_encode registryType in
      and_then (toArrayLike_le chainId 8) (\<lambda>chainBytes.
        Inr (fst (fpa [Buffer_from ''signer_registry'', discriminantBuffer, chainBytes]
                   programId))))"

definition client_getSignerRegistryPda ::
  "find_pda \<Rightarrow> PublicKey \<Rightarrow> RegistryType \<Rightarrow> js_error + PublicKey" where
  "client_getSignerRegistryPda fpa programId registryType =
     client_getSignerRegistryPdaForChain fpa programId registryType SOLANA_CHAIN_ID"

definition client_getCounterPda :: "find_pda \<Rightarrow> PublicKey \<Rightarrow> BN \<Rightarrow> js_error + PublicKey" where
  "client_getCounterPda fpa programId sourceChainId =
     and_then (toArrayLike_le sourceChainId 8) (\<lambda>chainBytes.
       Inr (fst (fpa [Buffer_from ''counter'', chainBytes] programId)))"

definition client_getTxIdPda :: "find_pda \<Rightarrow> PublicKey \<Rightarrow> BN \<Rightarrow> BN \<Rightarrow> js_error + PublicKey" where
  "client_getTxIdPda fpa programId sourceChainId txId =
     and_then (toArrayLike_le sourceChainId 8) (\<lambda>chainBytes.
     and_then (toArrayLike_le txId 16) (\<lambda>txBytes.
       Inr (fst (fpa [Buffer_from ''tx'', chainBytes, txBytes] programId))))"

section \<open>The SDK (packages/via-labs-sdk/src/sdk.ts)\<close>

text \<open>
  Of the client the methods read the program id and the wallet's public key. Each method
  is modelled up to the point where it hands its work to the chain: \<open>createTxPda\<close> and
  \<open>processMessage\<close> return the method call that \<open>.rpc()\<close> submits, the two
  \<open>...WithSignatures\<close> methods the transaction given to \<open>sendAndConfirm\<close>.
\<close>

record ViaLabsClient =
  client_programId :: PublicKey
  client_wallet :: PublicKey

definition SYSVAR_INSTRUCTIONS_PUBKEY :: PublicKey where
  "SYSVAR_INSTRUCTIONS_PUBKEY =
     [6, 167, 213, 23, 24, 123, 209, 102, 53, 218, 212, 4, 85, 253, 194, 192,
      193, 36, 198, 143, 33, 86, 117, 165, 219, 186, 203, 95, 8, 0, 0, 0]"

definition createTxPda ::
  "find_pda \<Rightarrow> ViaLabsClient \<Rightarrow> BN \<Rightarrow> BN \<Rightarrow> BN \<Rightarrow> Buffer \<Rightarrow> Buffer \<Rightarrow> Buffer \<Rightarrow> Buffer
     \<Rightarrow> (Buffer \<times> PublicKey) list \<Rightarrow> js_error + instruction" where
  "createTxPda fpa client txId sourceChainId destChainId sender recipient onChainData
       offChainData signatures =
     and_then (getTxIdPda fpa (client_programId client) (Some sourceChainId) (Some txId))
       (\<lambda>txIdPda.
     and_then (getCounterPda fpa (client_programId client) (Some sourceChainId))
       (\<lambda>counterPda.
       Inr (MethodInstruction ''createTxPda''
              (MessageArgs txId sourceChainId destChainId sender recipient onChainData
                 offChainData signatures)
              [(''txIdPda'', txIdPda), (''counterPda'', counterPda),
               (''relayer'', client_wallet client)])))"

definition processMessage ::
  "find_pda \<Rightarrow> ViaLabsClient \<Rightarrow> BN \<Rightarrow> BN \<Rightarrow> BN \<Rightarrow> Buffer \<Rightarrow> Buffer \<Rightarrow> Buffer \<Rightarrow> Buffer
     \<Rightarrow> (Buffer \<times> PublicKey) list \<Rightarrow> js_error + instruction" where
  "processMessage fpa client txId sourceChainId destChainId sender recipient onChainData
       offChainData signatures =
     and_then (getGatewayPda fpa (client_programId client) (Some destChainId))
       (\<lambda>gateway.
     and_then (getTxIdPda fpa (client_programId client) (Some sourceChainId) (Some txId))
       (\<lambda>txIdPda.
     and_then (getSignerRegistryPda fpa (client_programId client) Via (Some destChainId))
       (\<lambda>viaRegistry.
     and_then (getSignerRegistryPda fpa (client_programId client) Chain (Some sourceChainId))
       (\<lambda>chainRegistry.
     and_then (getSignerRegistryPda fpa (client_programId client) Project (Some destChainId))
       (\<lambda>projectRegistry.
       Inr (MethodInstruction ''processMessage''
              (MessageArgs txId sourceChainId destChainId sender recipient onChainData
                 offChainData signatures)
              [(''gateway'', gateway), (''txIdPda'', txIdPda),
               (''viaRegistry'', viaRegistry), (''chainRegistry'', chainRegistry),
               (''projectRegistry'', projectRegistry),
               (''relayer'', client_wallet client)]))))))"

text \<open>The loop \<open>for (const sig of signatures) tx.add(createEd25519Instruction(...))\<close>.\<close>

fun add_signature_instructions ::
  "Buffer \<Rightarrow> instruction list \<Rightarrow> MessageSignature list \<Rightarrow> js_error + instruction list" where
  "add_signature_instructions messageHash tx [] = Inr tx"
| "add_signature_instructions messageHash tx (sig # sigs) =
     and_then (createEd25519Instruction (signature sig) (signer sig) messageHash)
       (\<lambda>ins. add_signature_instructions messageHash (tx @ [ins]) sigs)"

definition createTxPdaWithSignatures ::
  "find_pda \<Rightarrow> ViaLabsClient \<Rightarrow> BN \<Rightarrow> BN \<Rightarrow> BN \<Rightarrow> Buffer \<Rightarrow> Buffer \<Rightarrow> Buffer \<Rightarrow> Buffer
     \<Rightarrow> MessageSignature list \<Rightarrow> js_error + instruction list" where
  "createTxPdaWithSignatures fpa client txId sourceChainId destChainId sender recipient
       onChainData offChainData signatures =
     and_then (createMessageHash txId sourceChainId destChainId sender recipient onChainData
                 offChainData) (\<lambda>messageHash.
     and_then (add_signature_instructions messageHash [] signatures) (\<lambda>tx.
     and_then (getTxIdPda fpa (client_programId client) (Some sourceChainId) (Some txId))
       (\<lambda>txIdPda.
     and_then (getCounterPda fpa (client_programId client) (Some sourceChainId))
       (\<lambda>counterPda.
       Inr (tx @ [MethodInstruction ''createTxPda''
              (MessageArgs txId sourceChainId destChainId sender recipient onChainData
                 offChainData (formatSignaturesForAnchor signatures))
              [(''txIdPda'', txIdPda), (''counterPda'', counterPda),
               (''relayer'', client_wallet client),
               (''instructions'', SYSVAR_INSTRUCTIONS_PUBKEY)]])))))"

definition processMessageWithSignatures ::
  "find_pda \<Rightarrow> ViaLabsClient \<Rightarrow> BN \<Rightarrow> BN \<Rightarrow> BN \<Rightarrow> Buffer \<Rightarrow> Buffer \<Rightarrow> Buffer \<Rightarrow> Buffer
     \<Rightarrow> MessageSignature list \<Rightarrow> js_error + instruction list" where
  "processMessageWithSignatures fpa client txId sourceChainId destChainId sender recipient
       onChainData offChainData signatures =
     and_then (createMessageHash txId sourceChainId destChainId sender recipient onChainData
                 offChainData) (\<lambda>messageHash.
     and_then (add_signature_instructions messageHash [] signatures) (\<lambda>tx.
     and_then (getGatewayPda fpa (client_programId client) (Some destChainId))
       (\<lambda>gateway.
     and_then (getTxIdPda fpa (client_programId client) (Some sourceChainId) (Some txId))
       (\<lambda>txIdPda.
     and_then (getSignerRegistryPda fpa (client_programId client) Via (Some destChainId))
       (\<lambda>viaRegistry.
     and_then (getSignerRegistryPda fpa (client_programId client) Chain (Some sourceChainId))
       (\<lambda>chainRegistry.
     and_then (getSignerRegistryPda fpa (client_programId client) Project (Some destChainId))
       (\<lambda>projectRegistry.
       Inr (tx @ [MethodInstruction ''processMessage''
              (MessageArgs txId sourceChainId destChainId sender recipient onChainData
                 offChainData (formatSignaturesForAnchor signatures))
              [(''gateway'', gateway), (''txIdPda'', txIdPda),
               (''viaRegistry'', viaRegistry), (''chainRegistry'', chainRegistry),
               (''projectRegistry'', projectRegistry),
               (''relayer'', client_wallet client),
               (''instructions'', SYSVAR_INSTRUCTIONS_PUBKEY)]]))))))))"

section \<open>The process-message script (scripts/process_message.ts)\<close>

text \<open>
  \<open>ProcessMessageExecutor.execute\<close> first prints the address of the record to close, then
  builds the call inside a \<open>try\<close>. The \<open>catch\<close> returns normally when the error is an
  \<open>Error\<close> whose message contains "Account does not exist" and rethrows it otherwise. The
  result is the call submitted with \<open>.rpc()\<close>, \<open>None\<close> when the \<open>catch\<close> returned.
\<close>

definition ProcessMessageExecutor_execute ::
  "find_pda \<Rightarrow> ViaLabsClient \<Rightarrow> BN \<Rightarrow> BN \<Rightarrow> BN \<Rightarrow> Buffer \<Rightarrow> Buffer \<Rightarrow> Buffer \<Rightarrow> Buffer
     \<Rightarrow> (Buffer \<times> PublicKey) list \<Rightarrow> js_error + instruction option" where
  "ProcessMessageExecutor_execute fpa client txId sourceChainId destChainId sender recipient
       onChainData offChainData signatures =
     and_then (client_getTxIdPda fpa (client_programId client) sourceChainId txId)
       (\<lambda>pdaToClose.
       case
         and_then (client_getGatewayPda fpa (client_programId client)) (\<lambda>gateway.
         and_then (client_getTxIdPda fpa (client_programId client) sourceChainId txId)
           (\<lambda>txIdPda.
         and_then (client_getSignerRegistryPdaForChain fpa (client_programId client) Via
                     destChainId) (\<lambda>viaRegistry.
         and_then (client_getSignerRegistryPdaForChain fpa (client_programId client) Chain
                     sourceChainId) (\<lambda>chainRegistry.
         and_then (client_getSignerRegistryPdaForChain fpa (client_programId client) Project
                     destChainId) (\<lambda>projectRegistry.
           Inr (MethodInstruction ''processMessage''
                  (MessageArgs txId sourceChainId destChainId sender recipient onChainData
                     offChainData signatures)
                  [(''gateway'', gateway), (''txIdPda'', txIdPda),
                   (''viaRegistry'', viaRegistry), (''chainRegistry'', chainRegistry),
                   (''projectRegistry'', projectRegistry),
                   (''relayer'', client_wallet client)]))))))
       of Inr ins \<Rightarrow> Inr (Some ins)
        | Inl err \<Rightarrow>
            (case error_message err of
               Some m \<Rightarrow> if String_includes m ''Account does not exist'' then Inr None else Inl err
             | None \<Rightarrow> Inl err))"

section \<open>The setup workflow (tools/setup.ts)\<close>

text \<open>
  \<open>setupChain\<close> makes five calls of the SDK, each in its own \<open>try\<close>. What a call does on
  the chain is outside the function: \<open>sdk\<close> tells, for each call, what it throws
  (\<open>None\<close> when it returns). The function returns how it ended together with the calls
  it made, in order. The \<open>catch\<close> tests \<open>e.message?.includes("already in use")\<close>.
\<close>

datatype sdk_call =
    InitializeGateway BN
  | InitializeCounter BN
  | InitializeRegistry RegistryType BN "PublicKey list" nat

type_synonym sdk_outcome = "sdk_call \<Rightarrow> js_error option"

definition already_in_use :: "js_error \<Rightarrow> bool" where
  "already_in_use e =
     (case error_message e of None \<Rightarrow> False | Some m \<Rightarrow> String_includes m ''already in use'')"

text \<open>A step is done when its call returned or threw what the \<open>catch\<close> absorbs.\<close>

definition step_done :: "sdk_outcome \<Rightarrow> sdk_call \<Rightarrow> bool" where
  "step_done sdk c = (case sdk c of None \<Rightarrow> True | Some e \<Rightarrow> already_in_use e)"

definition attempt ::
  "sdk_outcome \<Rightarrow> sdk_call \<Rightarrow> sdk_call list \<Rightarrow> (js_error + unit) \<times> sdk_call list" where
  "attempt sdk c calls =
     (case sdk c of
        None \<Rightarrow> (Inr (), calls @ [c])
      | Some e \<Rightarrow> if already_in_use e then (Inr (), calls @ [c]) else (Inl e, calls @ [c]))"

fun setup_registries ::
  "sdk_outcome \<Rightarrow> PublicKey \<Rightarrow> BN \<Rightarrow> RegistryType list \<Rightarrow> sdk_call list
     \<Rightarrow> (js_error + unit) \<times> sdk_call list" where
  "setup_registries sdk wallet chainId [] calls = (Inr (), calls)"
| "setup_registries sdk wallet chainId (t # ts) calls =
     (case attempt sdk (InitializeRegistry t chainId [wallet] 1) calls of
        (Inl e, calls') \<Rightarrow> (Inl e, calls')
      | (Inr u, calls') \<Rightarrow> setup_registries sdk wallet chainId ts calls')"

definition setupChain ::
  "sdk_outcome \<Rightarrow> PublicKey \<Rightarrow> BN \<Rightarrow> (js_error + unit) \<times> sdk_call list" where
  "setupChain sdk wallet chainId =
     (case attempt sdk (InitializeGateway chainId) [] of
        (Inl e, calls) \<Rightarrow> (Inl e, calls)
      | (Inr u, calls) \<Rightarrow>
          (case attempt sdk (InitializeCounter chainId) calls of
             (Inl e, calls') \<Rightarrow> (Inl e, calls')
           | (Inr u', calls') \<Rightarrow>
               setup_registries sdk wallet chainId [Via, Chain, Project] calls'))"

section \<open>The hash of the Phase-2 plan (SIGNATURE_DEVNET_PLAN.md, section 2.1)\<close>

text \<open>
  The plan's \<open>createMessageHash\<close> feeds a SHA-256 hasher of Node's \<open>crypto\<close>. A word is a
  32-bit value, kept as a natural number below \<open>2 ^ 32\<close>; the message schedule is kept
  as the window of its last sixteen words.
\<close>

type_synonym word32 = nat

definition add32 :: "word32 \<Rightarrow> word32 \<Rightarrow> word32" where
  "add32 x y = (x + y) mod 2 ^ 32"

definition rotr32 :: "nat \<Rightarrow> word32 \<Rightarrow> word32" where
  "rotr32 n x = drop_bit n x + push_bit (32 - n) (take_bit n x)"

definition not32 :: "word32 \<Rightarrow> word32" where
  "not32 x = (2 ^ 32 - 1) - x"

definition Ch :: "word32 \<Rightarrow> word32 \<Rightarrow> word32 \<Rightarrow> word32" where
  "Ch x y z = (x AND y) XOR (not32 x AND z)"

definition Maj :: "word32 \<Rightarrow> word32 \<Rightarrow> word32 \<Rightarrow> word32" where
  "Maj x y z = (x AND y) XOR (x AND z) XOR (y AND z)"

definition Sigma0 :: "word32 \<Rightarrow> word32" where
  "Sigma0 x = rotr32 2 x XOR rotr32 13 x XOR rotr32 22 x"

definition Sigma1 :: "word32 \<Rightarrow> word32" where
  "Sigma1 x = rotr32 6 x XOR rotr32 11 x XOR rotr32 25 x"

definition sigma0 :: "word32 \<Rightarrow> word32" where
  "sigma0 x = rotr32 7 x XOR rotr32 18 x XOR drop_bit 3 x"

definition sigma1 :: "word32 \<Rightarrow> word32" where
  "sigma1 x = rotr32 17 x XOR rotr32 19 x XOR drop_bit 10 x"

definition sha256_K :: "word32 list" where
  "sha256_K =
    [1116352408, 1899447441, 3049323471, 3921009573, 961987163, 1508970993, 2453635748,
     2870763221, 3624381080, 310598401, 607225278, 1426881987, 1925078388, 2162078206,
     2614888103, 3248222580, 3835390401, 4022224774, 264347078, 604807628, 770255983,
     1249150122, 1555081692, 1996064986, 2554220882, 2821834349, 2952996808, 3210313671,
     3336571891, 3584528711, 113926993, 338241895, 666307205, 773529912, 1294757372,
     1396182291, 1695183700, 1986661051, 2177026350, 2456956037, 2730485921, 2820302411,
     3259730800, 3345764771, 3516065817, 3600352804, 4094571909, 275423344, 430227734,
     506948616, 659060556, 883997877, 958139571, 1322822218, 1537002063, 1747873779,
     1955562222, 2024104815, 2227730452, 2361852424, 2428436474, 2756734187, 3204031479,
     3329325298]"

definition sha256_H0 :: "word32 list" where
  "sha256_H0 = [1779033703, 3144134277, 1013904242, 2773480762, 1359893119, 2600822924,
                528734635, 1541459225]"

fun sha256_mix :: "word32 \<Rightarrow> word32 \<Rightarrow> word32 list \<Rightarrow> word32 list" where
  "sha256_mix t1 t2 [a, b, c, d, e, f, g, h] = [add32 t1 t2, a, b, c, add32 d t1, e, f, g]"
| "sha256_mix t1 t2 s = s"

fun sha256_round :: "word32 \<Rightarrow> word32 \<Rightarrow> word32 list \<Rightarrow> word32 list" where
  "sha256_round k w [a, b, c, d, e, f, g, h] =
     sha256_mix (add32 (add32 (add32 (add32 h (Sigma1 e)) (Ch e f g)) k) w)
                (add32 (Sigma0 a) (Maj a b c)) [a, b, c, d, e, f, g, h]"
| "sha256_round k w s = s"

fun next_window :: "word32 list \<Rightarrow> word32 list" where
  "next_window (w0 # w1 # ws) =
     w1 # ws @ [add32 (add32 (add32 (sigma1 (ws ! 12)) (ws ! 7)) (sigma0 w1)) w0]"
| "next_window ws = ws"

fun sha256_rounds :: "word32 list \<Rightarrow> word32 list \<times> word32 list \<Rightarrow> word32 list \<times> word32 list" where
  "sha256_rounds [] ws = ws"
| "sha256_rounds (k # ks) (w, s) = sha256_rounds ks (next_window w, sha256_round k (hd w) s)"

fun be_words :: "Buffer \<Rightarrow> word32 list" where
  "be_words (b0 # b1 # b2 # b3 # bs) =
     (unat b3 + 256 * (unat b2 + 256 * (unat b1 + 256 * unat b0))) # be_words bs"
| "be_words bs = []"

definition sha256_block :: "word32 list \<Rightarrow> Buffer \<Rightarrow> word32 list" where
  "sha256_block H blk = map2 add32 H (snd (sha256_rounds sha256_K (be_words blk, H)))"

definition sha256_pad :: "Buffer \<Rightarrow> Buffer" where
  "sha256_pad m = m @ [128] @ replicate ((119 - length m mod 64) mod 64) 0
                    @ be_bytes 8 (8 * length m)"

function sha256_blocks :: "word32 list \<Rightarrow> Buffer \<Rightarrow> word32 list" where
  "sha256_blocks H p = (if length p < 64 then H
                        else sha256_blocks (sha256_block H (take 64 p)) (drop 64 p))"
  by pat_completeness auto
termination
  by (relation "measure (\<lambda>(H, p). length p)") auto

declare sha256_blocks.simps [simp del]

definition sha256 :: "Buffer \<Rightarrow> Buffer" where
  "sha256 m = concat (map (be_bytes 4) (sha256_blocks sha256_H0 (sha256_pad m)))"

text \<open>
  \<open>plan_hashed_bytes\<close> is what the \<open>hasher.update\<close> calls of the plan's function feed, in
  order: the three identifiers as in the SDK, then each of \<open>sender\<close> and \<open>recipient\<close>
  after one byte holding its length (\<open>Buffer.from([n])\<close> keeps \<open>n\<close> modulo 256), then each of
  \<open>onChainData\<close> and \<open>offChainData\<close> after its length in two bytes.
\<close>

definition plan_hashed_bytes ::
  "BN \<Rightarrow> BN \<Rightarrow> BN \<Rightarrow> Buffer \<Rightarrow> Buffer \<Rightarrow> Buffer \<Rightarrow> Buffer \<Rightarrow> js_error + Buffer" where
  "plan_hashed_bytes txId sourceChainId destChainId sender recipient onChainData offChainData =
     and_then (toArrayLike_le txId 16) (\<lambda>u1.
     and_then (toArrayLike_le sourceChainId 8) (\<lambda>u2.
     and_then (toArrayLike_le destChainId 8) (\<lambda>u3.
     and_then (writeUInt16LE (length onChainData)) (\<lambda>onChainLen.
     and_then (writeUInt16LE (length offChainData)) (\<lambda>offChainLen.
       Inr (concat [u1, u2, u3, [of_nat (length sender)], sender,
                    [of_nat (length recipient)], recipient,
                    onChainLen, onChainData, offChainLen, offChainData]))))))"

definition plan_createMessageHash ::
  "BN \<Rightarrow> BN \<Rightarrow> BN \<Rightarrow> Buffer \<Rightarrow> Buffer \<Rightarrow> Buffer \<Rightarrow> Buffer \<Rightarrow> js_error + Buffer" where
  "plan_createMessageHash txId sourceChainId destChainId sender recipient onChainData
       offChainData =
     and_then (plan_hashed_bytes txId sourceChainId destChainId sender recipient onChainData
                 offChainData) (\<lambda>fed. Inr (sha256 fed))"

section \<open>The replay-protection ledger\<close>

text \<open>Modelled from the spec: the on-chain gateway program
  (programs/message_gateway_v4), which executes \<open>createTxPda\<close>, is not among the
  sources. Section 7 of the specification lists the kinds of error it reports.
\<close>

datatype gateway_error =
    TooFewSignatures | TooManySignatures | InvalidSignature | UnauthorizedSigner
  | InsufficientLayerSignatures RegistryType | AlreadyExists | RecordNotFound
  | DigestMismatch | Unauthorized | SystemDisabled

text \<open>Modelled from the spec: by section 3 a marker is an existence-only record,
  addressed by its key, that holds the digest of the message. The ledger maps the address
  of a marker to the digest it holds.
\<close>

type_synonym ledger = "PublicKey \<rightharpoonup> Buffer"

text \<open>Modelled from the spec: the digest of section 4.1, which the program computes from
  the arguments of the call (the README names Keccak-256 as the hash of hash.rs): the
  transaction id in 16 bytes, the two chain ids in 8 bytes each, then the four byte fields
  each after its length in 4 bytes, all least significant byte first.
\<close>

fun message_digest :: "method_args \<Rightarrow> Buffer" where
  "message_digest (MessageArgs txId sourceChainId destChainId sender recipient onChainData
       offChainData signatures) =
     keccak_256_digest
       (le_bytes 16 (nat txId) @ le_bytes 8 (nat sourceChainId) @ le_bytes 8 (nat destChainId)
        @ le_bytes 4 (length sender) @ sender @ le_bytes 4 (length recipient) @ recipient
        @ le_bytes 4 (length onChainData) @ onChainData
        @ le_bytes 4 (length offChainData) @ offChainData)"

text \<open>Modelled from the spec: by sections 4.4 and 5 \<open>createRecord\<close> is the exclusive
  creation of the marker of a key. It fails with \<open>AlreadyExists\<close> when a marker is Pending
  for the key, and this is the gate that comes before everything else; otherwise the marker
  is created, holding the digest.
\<close>

definition createRecord :: "ledger \<Rightarrow> PublicKey \<Rightarrow> Buffer \<Rightarrow> gateway_error + ledger" where
  "createRecord markers key digest =
     (case markers key of
        Some held \<Rightarrow> Inl AlreadyExists
      | None \<Rightarrow> Inr (markers(key \<mapsto> digest)))"

text \<open>Modelled from the spec: the program executing a submitted \<open>createTxPda\<close> call
  creates the record at the account the call names \<open>txIdPda\<close>. Anything else (a call of
  another method, a call that names no such account, an instruction of another program)
  is no \<open>createTxPda\<close> call of the SDK: no record is created and the ledger is unchanged.
\<close>

fun program_createTxPda :: "ledger \<Rightarrow> instruction \<Rightarrow> gateway_error + ledger" where
  "program_createTxPda markers (MethodInstruction m args accounts) =
     (if m = ''createTxPda''
      then (case map_of accounts ''txIdPda'' of
              Some key \<Rightarrow> createRecord markers key (message_digest args)
            | None \<Rightarrow> Inr markers)
      else Inr markers)"
| "program_createTxPda markers (Ed25519Instruction k m s) = Inr markers"

section \<open>Properties\<close>

subsection \<open>Sequencing\<close>

lemma and_then_Inl [simp]: "and_then (Inl e) k = Inl e"
  by (simp add: and_then_def)

lemma and_then_Inr [simp]: "and_then (Inr v) k = k v"
  by (simp add: and_then_def)

lemma and_then_eq_Inr: "and_then r k = Inr y \<longleftrightarrow> (\<exists>v. r = Inr v \<and> k v = Inr y)"
  by (cases r) simp_all

subsection \<open>Little-endian encoding of big numbers\<close>

lemma byteLength_0 [simp]: "byteLength 0 = 0"
  by (simp add: byteLength.simps)

lemma byteLength_pos: "0 < x \<Longrightarrow> byteLength x = Suc (byteLength (x div 256))"
  by (simp add: byteLength.simps [of x])

lemma byteLength_le_iff: "byteLength x \<le> n \<longleftrightarrow> x < 256 ^ n"
proof (induction n arbitrary: x)
  case 0
  then show ?case by (cases "x = 0") (simp_all add: byteLength_pos)
next
  case (Suc n)
  have "x div 256 < 256 ^ n \<longleftrightarrow> x < 256 * 256 ^ n"
    by (simp add: div_less_iff_less_mult mult.commute)
  with Suc show ?case
    by (cases "x = 0") (simp_all add: byteLength_pos)
qed

lemma length_le_bytes [simp]: "length (le_bytes n x) = n"
  by (induction n arbitrary: x) simp_all

text \<open>The sign of a big number is not written: a negative one is encoded as its magnitude.\<close>

lemma toArrayLike_le_magnitude: "toArrayLike_le (- x) len = toArrayLike_le x len"
  by (simp add: toArrayLike_le_def Let_def)

lemma toArrayLike_le_fits:
  assumes "0 < len" and "0 \<le> x" and "x < 256 ^ len"
  shows "toArrayLike_le x len = Inr (le_bytes len (nat x))"
proof -
  have "nat x < 256 ^ len"
    using assms by (simp add: nat_less_iff)
  then have "byteLength (nat x) \<le> len"
    by (simp add: byteLength_le_iff)
  then show ?thesis
    using assms by (simp add: toArrayLike_le_def)
qed


subsection \<open>Identifier validation of the address derivations\<close>

lemma validateChainId_iff: "validateChainId x = Inr () \<longleftrightarrow> (\<exists>c. x = Some c \<and> 0 \<le> c)"
  by (cases x) (auto simp: validateChainId_def)

lemma validateTxId_iff: "validateTxId x = Inr () \<longleftrightarrow> (\<exists>t. x = Some t \<and> 0 \<le> t)"
  by (cases x) (auto simp: validateTxId_def)

lemma validateChainId_ok [simp]: "0 \<le> c \<Longrightarrow> validateChainId (Some c) = Inr ()"
  by (simp add: validateChainId_def)

lemma validateTxId_ok [simp]: "0 \<le> t \<Longrightarrow> validateTxId (Some t) = Inr ()"
  by (simp add: validateTxId_def)

lemma validateChainId_bad:
  "x = None \<or> (\<exists>c. x = Some c \<and> c < 0) \<Longrightarrow>
   validateChainId x = Inl (Error (''Invalid chain ID: '' @ id_toString x))"
  by (auto simp: validateChainId_def)

lemma validateTxId_bad:
  "x = None \<or> (\<exists>t. x = Some t \<and> t < 0) \<Longrightarrow>
   validateTxId x = Inl (Error (''Invalid TX ID: '' @ id_toString x))"
  by (auto simp: validateTxId_def)

lemma toArrayLike_of_chain [simp]:
  "0 \<le> c \<Longrightarrow> c < 2 ^ 64 \<Longrightarrow> toArrayLike_of (Some c) CHAIN_ID_BYTES = Inr (le_bytes 8 (nat c))"
  using toArrayLike_le_fits [of 8 c] by (simp add: toArrayLike_of_def CHAIN_ID_BYTES_def)

lemma toArrayLike_of_tx [simp]:
  "0 \<le> t \<Longrightarrow> t < 2 ^ 128 \<Longrightarrow> toArrayLike_of (Some t) TX_ID_BYTES = Inr (le_bytes 16 (nat t))"
  using toArrayLike_le_fits [of 16 t] by (simp add: toArrayLike_of_def TX_ID_BYTES_def)

text \<open>
  C9. Every derivation method of the SDK's \<open>ViaLabsPDAs\<close> validates its identifiers before
  any address is derived: a chain id that is null or negative makes each of the four methods
  throw an "Invalid chain ID" error, whatever the derivation function would return; with a
  valid chain id, a transaction id that is null or negative makes \<open>getTxIdPda\<close> throw an
  "Invalid TX ID" error; and identifiers from zero up to the width of their encoding pass
  validation, each method returning the derived address.
\<close>

theorem pda_methods_validate_identifiers:
  "(chainId = None \<or> (\<exists>n. chainId = Some n \<and> n < 0) \<longrightarrow>
      getGatewayPda fpa pid chainId = Inl (Error (''Invalid chain ID: '' @ id_toString chainId)) \<and>
      getSignerRegistryPda fpa pid rt chainId
        = Inl (Error (''Invalid chain ID: '' @ id_toString chainId)) \<and>
      getCounterPda fpa pid chainId = Inl (Error (''Invalid chain ID: '' @ id_toString chainId)) \<and>
      getTxIdPda fpa pid chainId txId
        = Inl (Error (''Invalid chain ID: '' @ id_toString chainId))) \<and>
   (0 \<le> c \<and> (txId = None \<or> (\<exists>n. txId = Some n \<and> n < 0)) \<longrightarrow>
      getTxIdPda fpa pid (Some c) txId = Inl (Error (''Invalid TX ID: '' @ id_toString txId))) \<and>
   (0 \<le> c \<and> c < 2 ^ 64 \<and> 0 \<le> t \<and> t < 2 ^ 128 \<longrightarrow>
      validateChainId (Some c) = Inr () \<and> validateTxId (Some t) = Inr () \<and>
      getGatewayPda fpa pid (Some c)
        = Inr (fst (fpa [Buffer_from ''gateway'', le_bytes 8 (nat c)] pid)) \<and>
      getSignerRegistryPda fpa pid rt (Some c)
        = Inr (fst (fpa [Buffer_from ''signer_registry'',
                         [of_nat (registryTypeToDiscriminant rt)], le_bytes 8 (nat c)] pid)) \<and>
      getCounterPda fpa pid (Some c)
        = Inr (fst (fpa [Buffer_from ''counter'', le_bytes 8 (nat c)] pid)) \<and>
      getTxIdPda fpa pid (Some c) (Some t)
        = Inr (fst (fpa [Buffer_from ''tx'', le_bytes 8 (nat c), le_bytes 16 (nat t)] pid)))"
proof (intro conjI impI)
  assume bad: "chainId = None \<or> (\<exists>n. chainId = Some n \<and> n < 0)"
  note e = validateChainId_bad [OF bad]
  show "getGatewayPda fpa pid chainId = Inl (Error (''Invalid chain ID: '' @ id_toString chainId))"
    by (simp add: getGatewayPda_def e)
  show "getSignerRegistryPda fpa pid rt chainId
          = Inl (Error (''Invalid chain ID: '' @ id_toString chainId))"
    by (simp add: getSignerRegistryPda_def e)
  show "getCounterPda fpa pid chainId = Inl (Error (''Invalid chain ID: '' @ id_toString chainId))"
    by (simp add: getCounterPda_def e)
  show "getTxIdPda fpa pid chainId txId = Inl (Error (''Invalid chain ID: '' @ id_toString chainId))"
    by (simp add: getTxIdPda_def e)
next
  assume a: "0 \<le> c \<and> (txId = None \<or> (\<exists>n. txId = Some n \<and> n < 0))"
  then have "validateTxId txId = Inl (Error (''Invalid TX ID: '' @ id_toString txId))"
    by (intro validateTxId_bad) simp
  with a show "getTxIdPda fpa pid (Some c) txId = Inl (Error (''Invalid TX ID: '' @ id_toString txId))"
    by (simp add: getTxIdPda_def)
next
  assume a: "0 \<le> c \<and> c < 2 ^ 64 \<and> 0 \<le> t \<and> t < 2 ^ 128"
  then show "validateChainId (Some c) = Inr ()" and "validateTxId (Some t) = Inr ()"
    by simp_all
  from a show "getGatewayPda fpa pid (Some c)
        = Inr (fst (fpa [Buffer_from ''gateway'', le_bytes 8 (nat c)] pid))"
    by (simp add: getGatewayPda_def)
  from a show "getSignerRegistryPda fpa pid rt (Some c)
        = Inr (fst (fpa [Buffer_from ''signer_registry'',
                         [of_nat (registryTypeToDiscriminant rt)], le_bytes 8 (nat c)] pid))"
    by (simp add: getSignerRegistryPda_def)
  from a show "getCounterPda fpa pid (Some c)
        = Inr (fst (fpa [Buffer_from ''counter'', le_bytes 8 (nat c)] pid))"
    by (simp add: getCounterPda_def)
  from a show "getTxIdPda fpa pid (Some c) (Some t)
        = Inr (fst (fpa [Buffer_from ''tx'', le_bytes 8 (nat c), le_bytes 16 (nat t)] pid))"
    by (simp add: getTxIdPda_def)
qed

lemma digits10_small: "n < 10 \<Longrightarrow> digits10 n = [''0123456789'' ! n]"
  by (simp add: digits10.simps [of n])

lemma digits10_large:
  "10 \<le> n \<Longrightarrow> digits10 n = digits10 (n div 10) @ [''0123456789'' ! (n mod 10)]"
  by (simp add: digits10.simps [of n])

lemma le_bytes_numeral:
  "le_bytes (numeral k) x = of_nat (x mod 256) # le_bytes (pred_numeral k) (x div 256)"
  by (simp only: numeral_eq_Suc [of k] le_bytes.simps)

theorem pda_methods_validate_identifiers_witness:
  "getGatewayPda (\<lambda>seeds p. (concat seeds @ p, 255)) [7] (Some (- 5))
     = Inl (Error ''Invalid chain ID: -5'') \<and>
   getSignerRegistryPda (\<lambda>seeds p. (concat seeds @ p, 255)) [7] Chain None
     = Inl (Error ''Invalid chain ID: null'') \<and>
   getTxIdPda (\<lambda>seeds p. (concat seeds @ p, 255)) [7] (Some 43113) (Some (- 12))
     = Inl (Error ''Invalid TX ID: -12'') \<and>
   getCounterPda (\<lambda>seeds p. (concat seeds @ p, 255)) [7] (Some 43113)
     = Inr (Buffer_from ''counter'' @ [105, 168, 0, 0, 0, 0, 0, 0, 7])"
  using pda_methods_validate_identifiers
      [of "Some (- 5)" "\<lambda>seeds p. (concat seeds @ p, 255)" "[7]" Chain "Some (- 12)" 43113 1]
    pda_methods_validate_identifiers
      [of None "\<lambda>seeds p. (concat seeds @ p, 255)" "[7]" Chain None 43113 1]
  by (simp add: id_toString_def BN_toString_def digits10_small digits10_large le_bytes_numeral)

subsection \<open>The key surface of the record addresses\<close>

lemma toArrayLike_le_8 [simp]:
  "0 \<le> c \<Longrightarrow> c < 2 ^ 64 \<Longrightarrow> toArrayLike_le c 8 = Inr (le_bytes 8 (nat c))"
  using toArrayLike_le_fits [of 8 c] by simp

lemma toArrayLike_le_16 [simp]:
  "0 \<le> t \<Longrightarrow> t < 2 ^ 128 \<Longrightarrow> toArrayLike_le t 16 = Inr (le_bytes 16 (nat t))"
  using toArrayLike_le_fits [of 16 t] by simp

lemma coder_types_encode_discriminant:
  "coder_types_encode rt = [of_nat (registryTypeToDiscriminant rt)]"
  by (cases rt) (simp_all add: coder_types_encode_def)

lemma client_registry_pda_eq:
  "0 \<le> c \<Longrightarrow>
   client_getSignerRegistryPdaForChain fpa pid rt c = getSignerRegistryPda fpa pid rt (Some c)"
  by (simp add: client_getSignerRegistryPdaForChain_def getSignerRegistryPda_def
      coder_types_encode_discriminant toArrayLike_of_def CHAIN_ID_BYTES_def)

lemma client_counter_pda_eq:
  "0 \<le> c \<Longrightarrow> client_getCounterPda fpa pid c = getCounterPda fpa pid (Some c)"
  by (simp add: client_getCounterPda_def getCounterPda_def toArrayLike_of_def CHAIN_ID_BYTES_def)

lemma client_tx_pda_eq:
  "0 \<le> c \<Longrightarrow> 0 \<le> t \<Longrightarrow> client_getTxIdPda fpa pid c t = getTxIdPda fpa pid (Some c) (Some t)"
  by (simp add: client_getTxIdPda_def getTxIdPda_def toArrayLike_of_def CHAIN_ID_BYTES_def
      TX_ID_BYTES_def)

lemma client_gateway_pda_eq:
  "client_getGatewayPda fpa pid = getGatewayPda fpa pid (Some SOLANA_CHAIN_ID)"
  by (simp add: client_getGatewayPda_def getGatewayPda_def toArrayLike_of_def CHAIN_ID_BYTES_def
      SOLANA_CHAIN_ID_def)

text \<open>
  C5. The SDK derives the four kinds of record address from exactly the keys of section 6:
  the gateway from the bytes of "gateway" and the chain id in 8 bytes, least significant
  first; a signer registry from "signer_registry", one byte holding the discriminant of the
  layer (Via 0, Chain 1, Project 2) and the chain id in 8 bytes; a transaction marker from
  "tx", the source chain id in 8 bytes and the transaction id in 16 bytes; the counter from
  "counter" and the source chain id in 8 bytes. The derivation of the client scripts, which
  takes the discriminant byte from Anchor's coder, returns the same as the SDK's for every
  layer and every chain id that is not negative; so do its counter and marker derivations.
\<close>

theorem pda_key_surface:
  "(0 \<le> c \<and> c < 2 ^ 64 \<and> 0 \<le> t \<and> t < 2 ^ 128 \<longrightarrow>
      getGatewayPda fpa pid (Some c)
        = Inr (fst (fpa [Buffer_from ''gateway'', le_bytes 8 (nat c)] pid)) \<and>
      getSignerRegistryPda fpa pid rt (Some c)
        = Inr (fst (fpa [Buffer_from ''signer_registry'',
                         [of_nat (registryTypeToDiscriminant rt)], le_bytes 8 (nat c)] pid)) \<and>
      getTxIdPda fpa pid (Some c) (Some t)
        = Inr (fst (fpa [Buffer_from ''tx'', le_bytes 8 (nat c), le_bytes 16 (nat t)] pid)) \<and>
      getCounterPda fpa pid (Some c)
        = Inr (fst (fpa [Buffer_from ''counter'', le_bytes 8 (nat c)] pid))) \<and>
   registryTypeToDiscriminant Via = 0 \<and> registryTypeToDiscriminant Chain = 1 \<and>
   registryTypeToDiscriminant Project = 2 \<and>
   (0 \<le> c \<longrightarrow>
      client_getSignerRegistryPdaForChain fpa pid rt c = getSignerRegistryPda fpa pid rt (Some c) \<and>
      client_getCounterPda fpa pid c = getCounterPda fpa pid (Some c)) \<and>
   (0 \<le> c \<and> 0 \<le> t \<longrightarrow>
      client_getTxIdPda fpa pid c t = getTxIdPda fpa pid (Some c) (Some t))"
  by (simp add: getGatewayPda_def getSignerRegistryPda_def getTxIdPda_def getCounterPda_def
      client_registry_pda_eq client_counter_pda_eq client_tx_pda_eq)

theorem pda_key_surface_witness:
  "getSignerRegistryPda (\<lambda>seeds p. (concat seeds @ p, 255)) [7] Chain (Some 43113)
     = Inr (Buffer_from ''signer_registry'' @ [1, 105, 168, 0, 0, 0, 0, 0, 0, 7]) \<and>
   client_getSignerRegistryPdaForChain (\<lambda>seeds p. (concat seeds @ p, 255)) [7] Chain 43113
     = Inr (Buffer_from ''signer_registry'' @ [1, 105, 168, 0, 0, 0, 0, 0, 0, 7]) \<and>
   getTxIdPda (\<lambda>seeds p. (concat seeds @ p, 255)) [7] (Some 43113) (Some 1)
     = Inr (Buffer_from ''tx'' @ [105, 168, 0, 0, 0, 0, 0, 0,
                                  1, 0, 0, 0, 0, 0, 0, 0, 0, 0, 0, 0, 0, 0, 0, 0, 7])"
  using pda_key_surface [of 43113 1 "\<lambda>seeds p. (concat seeds @ p, 255)" "[7]" Chain]
  by (simp add: le_bytes_numeral)

subsection \<open>Hexadecimal text\<close>

lemma upt_16: "[0..<16] = [0, 1, 2, 3, 4, 5, 6, 7, 8, 9, 10, 11, 12, 13, 14, 15]"
  by (simp add: upt_conv_Cons)

lemma hex_value_digit:
  assumes "n < 16"
  shows "hex_value (''0123456789abcdef'' ! n) = Some n"
proof -
  have "\<forall>k \<in> set [0..<16]. hex_value (''0123456789abcdef'' ! k) = Some k"
    unfolding upt_16 by (simp add: hex_value_def)
  with assms show ?thesis by simp
qed

lemma Buffer_from_hex_byte:
  "Buffer_from_hex (hex_of_byte b @ cs) = b # Buffer_from_hex cs"
proof -
  have "unat b div 16 < 16"
    using unsigned_less [of b, where 'a = nat] by (simp add: less_mult_imp_div_less)
  moreover have "unat b mod 16 < 16" by simp
  moreover have "(of_nat (16 * (unat b div 16) + unat b mod 16) :: byte) = b"
    by (simp only: mult_div_mod_eq) simp
  ultimately show ?thesis
    by (simp add: hex_of_byte_def hex_value_digit)
qed

lemma Buffer_from_hex_encode [simp]: "Buffer_from_hex (hex_encode bs) = bs"
  by (induction bs) (simp_all add: hex_encode_def Buffer_from_hex_byte)

lemma Buffer_from_hex_keccak_256 [simp]: "Buffer_from_hex (keccak_256 m) = keccak_256_digest m"
  by (simp add: keccak_256_def)

subsection \<open>The size of a Keccak-256 digest\<close>

lemma length_keccak_round [simp]: "length (keccak_round r a) = 25"
  by (simp add: keccak_round_def iota_def chi_def)

lemma length_keccak_rounds: "length a = 25 \<or> rs \<noteq> [] \<Longrightarrow> length (keccak_rounds rs a) = 25"
  by (induction rs arbitrary: a) auto

lemma length_keccak_f [simp]: "length (keccak_f a) = 25"
  by (simp add: keccak_f_def length_keccak_rounds)

lemma length_absorb: "length s = 25 \<Longrightarrow> length (absorb s p) = 25"
proof (induction s p rule: absorb.induct)
  case (1 s p)
  then show ?case
    by (cases "length p < 136") (simp_all add: absorb.simps [of s p])
qed

lemma length_concat_le_bytes: "length (concat (map (le_bytes n) xs)) = n * length xs"
  by (induction xs) simp_all

lemma length_keccak_256_digest [simp]: "length (keccak_256_digest m) = 32"
  by (simp add: keccak_256_digest_def squeeze32_def length_concat_le_bytes length_absorb)

subsection \<open>The bytes that are hashed\<close>

lemma writeUInt32LE_fits [simp]: "n < 2 ^ 32 \<Longrightarrow> writeUInt32LE n = Inr (le_bytes 4 n)"
  by (simp add: writeUInt32LE_def)

lemma encodeLengthPrefixed_fits [simp]:
  "length data < 2 ^ 32 \<Longrightarrow> encodeLengthPrefixed data = Inr (le_bytes 4 (length data) @ data)"
  by (simp add: encodeLengthPrefixed_def)



lemma createMessageHash_allData_fits:
  assumes "0 \<le> txId" "txId < 2 ^ 128" "0 \<le> src" "src < 2 ^ 64" "0 \<le> dst" "dst < 2 ^ 64"
    and "length sender < 2 ^ 32" "length recipient < 2 ^ 32"
    and "length onChainData < 2 ^ 32" "length offChainData < 2 ^ 32"
  shows "createMessageHash_allData txId src dst sender recipient onChainData offChainData =
     Inr (le_bytes 16 (nat txId) @ le_bytes 8 (nat src) @ le_bytes 8 (nat dst)
          @ le_bytes 4 (length sender) @ sender @ le_bytes 4 (length recipient) @ recipient
          @ le_bytes 4 (length onChainData) @ onChainData
          @ le_bytes 4 (length offChainData) @ offChainData)"
  using assms by (simp add: createMessageHash_allData_def)

lemma createMessageHash_eq:
  "createMessageHash txId src dst sender recipient onChainData offChainData =
     and_then (createMessageHash_allData txId src dst sender recipient onChainData offChainData)
       (\<lambda>allData. Inr (keccak_256_digest allData))"
  by (simp add: createMessageHash_def)

lemma createMessageHash_length:
  "createMessageHash txId src dst sender recipient onChainData offChainData = Inr h
   \<Longrightarrow> length h = 32"
  by (auto simp: createMessageHash_eq and_then_eq_Inr)

text \<open>
  C2. For a message whose transaction id is an unsigned 128-bit value and whose chain ids
  are unsigned 64-bit values (the byte fields being short enough for their 4-byte length
  prefix, as every message of the data model is), \<open>createMessageHash\<close> hashes exactly: the
  transaction id in 16 bytes, least significant first; the source and the destination
  chain id in 8 bytes each, least significant first; then sender, recipient, on-chain data
  and off-chain data, each after its length in 4 bytes, least significant first; in that
  order, with nothing between. What it returns is the Keccak-256 of these bytes as js-sha3
  prints it, read back from hexadecimal: 32 bytes.
\<close>

theorem createMessageHash_layout:
  assumes "0 \<le> txId" "txId < 2 ^ 128" "0 \<le> src" "src < 2 ^ 64" "0 \<le> dst" "dst < 2 ^ 64"
    and "length sender < 2 ^ 32" "length recipient < 2 ^ 32"
    and "length onChainData < 2 ^ 32" "length offChainData < 2 ^ 32"
  shows "\<exists>allData h.
     allData = le_bytes 16 (nat txId) @ le_bytes 8 (nat src) @ le_bytes 8 (nat dst)
          @ le_bytes 4 (length sender) @ sender @ le_bytes 4 (length recipient) @ recipient
          @ le_bytes 4 (length onChainData) @ onChainData
          @ le_bytes 4 (length offChainData) @ offChainData \<and>
     createMessageHash_allData txId src dst sender recipient onChainData offChainData
       = Inr allData \<and>
     createMessageHash txId src dst sender recipient onChainData offChainData = Inr h \<and>
     h = Buffer_from_hex (keccak_256 allData) \<and> h = keccak_256_digest allData \<and>
     length h = 32"
  using createMessageHash_allData_fits [OF assms]
  by (simp add: createMessageHash_eq)

theorem createMessageHash_layout_witness:
  "createMessageHash_allData 1 43113 9999999999999999999 (Buffer_from ''avax'') []
       (Buffer_from ''hello'') []
     = Inr [1, 0, 0, 0, 0, 0, 0, 0, 0, 0, 0, 0, 0, 0, 0, 0, 105, 168, 0, 0, 0, 0, 0, 0,
            255, 255, 231, 137, 4, 35, 199, 138, 4, 0, 0, 0, 97, 118, 97, 120, 0, 0, 0, 0,
            5, 0, 0, 0, 104, 101, 108, 108, 111, 0, 0, 0, 0] \<and>
   createMessageHash 1 43113 9999999999999999999 (Buffer_from ''avax'') []
       (Buffer_from ''hello'') []
     = Inr (keccak_256_digest
            [1, 0, 0, 0, 0, 0, 0, 0, 0, 0, 0, 0, 0, 0, 0, 0, 105, 168, 0, 0, 0, 0, 0, 0,
             255, 255, 231, 137, 4, 35, 199, 138, 4, 0, 0, 0, 97, 118, 97, 120, 0, 0, 0, 0,
             5, 0, 0, 0, 104, 101, 108, 108, 111, 0, 0, 0, 0])"
  using createMessageHash_layout [of 1 43113 9999999999999999999 "Buffer_from ''avax''" "[]"
      "Buffer_from ''hello''" "[]"]
  by (simp add: le_bytes_numeral Buffer_from_def)

subsection \<open>The message hash does not depend on the heap\<close>

lemma BN_toArrayLike_le_run:
  "BN_toArrayLike_le x len H =
     (case toArrayLike_le x len of Inl e \<Rightarrow> (Inl e, H)
      | Inr bytes \<Rightarrow> (Inr (length H), H @ [bytes]))"
  by (cases "toArrayLike_le x len") (simp_all add: BN_toArrayLike_le_def new_Buffer_def)

lemma encodeLengthPrefixed_heap_run:
  assumes "data < length H"
  shows "encodeLengthPrefixed_heap data H =
     (case encodeLengthPrefixed (H ! data) of
        Inl e \<Rightarrow> (Inl e, H @ [replicate 4 0])
      | Inr bytes \<Rightarrow> (Inr (Suc (length H)), H @ [le_bytes 4 (length (H ! data)), bytes]))"
  using assms
  by (simp add: encodeLengthPrefixed_heap_def encodeLengthPrefixed_def Buffer_alloc_def
      new_Buffer_def Buffer_length_def buf_writeUInt32LE_def Buffer_concat_def run_then_def
      writeUInt32LE_def nth_append)

lemma createMessageHash_heap_run:
  assumes "sender < length H" "recipient < length H"
    and "onChainData < length H" "offChainData < length H"
  shows "\<exists>G. createMessageHash_heap txId src dst sender recipient onChainData offChainData H
           = (case createMessageHash txId src dst (H ! sender) (H ! recipient)
                     (H ! onChainData) (H ! offChainData) of
                Inl e \<Rightarrow> Inl e | Inr digest \<Rightarrow> Inr (length H + 12), H @ G) \<and>
         (\<forall>digest. createMessageHash txId src dst (H ! sender) (H ! recipient)
                     (H ! onChainData) (H ! offChainData) = Inr digest
            \<longrightarrow> length G = 13 \<and> G ! 12 = digest)"
  using assms
  apply (cases "toArrayLike_le txId 16"; cases "toArrayLike_le src 8";
      cases "toArrayLike_le dst 8"; cases "encodeLengthPrefixed (H ! sender)";
      cases "encodeLengthPrefixed (H ! recipient)";
      cases "encodeLengthPrefixed (H ! onChainData)";
      cases "encodeLengthPrefixed (H ! offChainData)")
  apply (simp_all add: createMessageHash_heap_def createMessageHash_eq
      createMessageHash_allData_def run_then_def BN_toArrayLike_le_run
      encodeLengthPrefixed_heap_run nth_append Buffer_concat_def new_Buffer_def
      sha3_keccak_256_def Buffer_from_hex_new_def)
  done

text \<open>
  C4. \<open>createMessageHash\<close> is a function of the values of its seven fields and of nothing
  else. Take two calls, each in a heap of its own (any objects may be there, left by any
  earlier calls, and the heap of the second call may be the one the first call left), on
  the same three numbers and on buffers that hold the same bytes, whichever objects they
  are and whether or not two arguments are one object. Then both calls throw the same
  error or both return a digest, the two digests are equal byte for byte and have 32
  bytes, and each is a new object. No object that was in the heap before a call is changed
  by it: the heap after the call is the heap before it followed by new objects. What a
  call returns is what \<open>createMessageHash\<close> computes from the values of the fields, and
  for unsigned identifiers of 128 and 64 bits and fields short enough for their length
  prefix a digest is returned.
\<close>

theorem createMessageHash_deterministic:
  assumes "sender < length H" "recipient < length H"
    and "onChainData < length H" "offChainData < length H"
    and "sender' < length H'" "recipient' < length H'"
    and "onChainData' < length H'" "offChainData' < length H'"
    and "H ! sender = H' ! sender'" "H ! recipient = H' ! recipient'"
    and "H ! onChainData = H' ! onChainData'" "H ! offChainData = H' ! offChainData'"
  shows "\<exists>res G res' G'.
     createMessageHash_heap txId src dst sender recipient onChainData offChainData H
       = (res, H @ G) \<and>
     createMessageHash_heap txId src dst sender' recipient' onChainData' offChainData' H'
       = (res', H' @ G') \<and>
     (case res of
        Inl e \<Rightarrow> res' = Inl e
      | Inr d \<Rightarrow> (\<exists>d'. res' = Inr d' \<and>
          length H \<le> d \<and> d < length (H @ G) \<and> length H' \<le> d' \<and> d' < length (H' @ G') \<and>
          (H @ G) ! d = (H' @ G') ! d' \<and> length ((H @ G) ! d) = 32)) \<and>
     (case res of Inl e \<Rightarrow> Inl e | Inr d \<Rightarrow> Inr ((H @ G) ! d))
       = createMessageHash txId src dst (H ! sender) (H ! recipient) (H ! onChainData)
           (H ! offChainData) \<and>
     (0 \<le> txId \<and> txId < 2 ^ 128 \<and> 0 \<le> src \<and> src < 2 ^ 64 \<and> 0 \<le> dst \<and> dst < 2 ^ 64 \<and>
      length (H ! sender) < 2 ^ 32 \<and> length (H ! recipient) < 2 ^ 32 \<and>
      length (H ! onChainData) < 2 ^ 32 \<and> length (H ! offChainData) < 2 ^ 32
      \<longrightarrow> (\<exists>d. res = Inr d))"
proof -
  let ?result = "createMessageHash txId src dst (H ! sender) (H ! recipient) (H ! onChainData)
      (H ! offChainData)"
  obtain G where G:
    "createMessageHash_heap txId src dst sender recipient onChainData offChainData H
       = (case ?result of Inl e \<Rightarrow> Inl e | Inr digest \<Rightarrow> Inr (length H + 12), H @ G)"
    "\<And>digest. ?result = Inr digest \<Longrightarrow> length G = 13 \<and> G ! 12 = digest"
    using createMessageHash_heap_run [OF assms(1-4), of txId src dst] by blast
  obtain G' where G':
    "createMessageHash_heap txId src dst sender' recipient' onChainData' offChainData' H'
       = (case ?result of Inl e \<Rightarrow> Inl e | Inr digest \<Rightarrow> Inr (length H' + 12), H' @ G')"
    "\<And>digest. ?result = Inr digest \<Longrightarrow> length G' = 13 \<and> G' ! 12 = digest"
    using createMessageHash_heap_run [OF assms(5-8), of txId src dst] assms(9-12) by auto
  show ?thesis
  proof (cases ?result)
    case (Inl e)
    have "\<not> (0 \<le> txId \<and> txId < 2 ^ 128 \<and> 0 \<le> src \<and> src < 2 ^ 64 \<and> 0 \<le> dst \<and> dst < 2 ^ 64 \<and>
      length (H ! sender) < 2 ^ 32 \<and> length (H ! recipient) < 2 ^ 32 \<and>
      length (H ! onChainData) < 2 ^ 32 \<and> length (H ! offChainData) < 2 ^ 32)"
      using Inl createMessageHash_allData_fits [of txId src dst "H ! sender" "H ! recipient"
          "H ! onChainData" "H ! offChainData"]
      by (auto simp: createMessageHash_eq)
    with Inl G(1) G'(1) show ?thesis
      by (intro exI [of _ "Inl e"] exI [of _ G] exI [of _ G']) simp
  next
    case (Inr digest)
    have "length digest = 32"
      using Inr by (rule createMessageHash_length)
    with Inr G(1) G(2) [OF Inr] G'(1) G'(2) [OF Inr] show ?thesis
      by (intro exI [of _ "Inr (length H + 12)"] exI [of _ G] exI [of _ "Inr (length H' + 12)"]
          exI [of _ G']) (simp add: nth_append)
  qed
qed

theorem createMessageHash_deterministic_witness:
  "\<exists>d G d' G'.
     createMessageHash_heap 1 43113 9999999999999999999 0 1 2 1
         [Buffer_from ''avax'', [], Buffer_from ''hello'']
       = (Inr d, [Buffer_from ''avax'', [], Buffer_from ''hello''] @ G) \<and>
     createMessageHash_heap 1 43113 9999999999999999999 3 2 1 2
         [[255], Buffer_from ''hello'', [], Buffer_from ''avax'']
       = (Inr d', [[255], Buffer_from ''hello'', [], Buffer_from ''avax''] @ G') \<and>
     ([Buffer_from ''avax'', [], Buffer_from ''hello''] @ G) ! d
       = ([[255], Buffer_from ''hello'', [], Buffer_from ''avax''] @ G') ! d' \<and>
     ([Buffer_from ''avax'', [], Buffer_from ''hello''] @ G) ! d
       = keccak_256_digest
            [1, 0, 0, 0, 0, 0, 0, 0, 0, 0, 0, 0, 0, 0, 0, 0, 105, 168, 0, 0, 0, 0, 0, 0,
             255, 255, 231, 137, 4, 35, 199, 138, 4, 0, 0, 0, 97, 118, 97, 120, 0, 0, 0, 0,
             5, 0, 0, 0, 104, 101, 108, 108, 111, 0, 0, 0, 0]"
proof -
  let ?H = "[Buffer_from ''avax'', [], Buffer_from ''hello'']"
  let ?H' = "[[255], Buffer_from ''hello'', [], Buffer_from ''avax'']"
  let ?bytes = "[1, 0, 0, 0, 0, 0, 0, 0, 0, 0, 0, 0, 0, 0, 0, 0, 105, 168, 0, 0, 0, 0, 0, 0,
             255, 255, 231, 137, 4, 35, 199, 138, 4, 0, 0, 0, 97, 118, 97, 120, 0, 0, 0, 0,
             5, 0, 0, 0, 104, 101, 108, 108, 111, 0, 0, 0, 0] :: Buffer"
  have "0 < length ?H" "1 < length ?H" "2 < length ?H"
    and "3 < length ?H'" "2 < length ?H'" "1 < length ?H'"
    and "?H ! 0 = ?H' ! 3" "?H ! 1 = ?H' ! 2" "?H ! 2 = ?H' ! 1"
    by simp_all
  from createMessageHash_deterministic [OF this(1,2,3,2,4,5,6,5,7,8,9,8),
      of 1 43113 9999999999999999999]
  obtain res G res' G' where run:
    "createMessageHash_heap 1 43113 9999999999999999999 0 1 2 1 ?H = (res, ?H @ G)"
    "createMessageHash_heap 1 43113 9999999999999999999 3 2 1 2 ?H' = (res', ?H' @ G')"
    and same: "case res of Inl e \<Rightarrow> res' = Inl e
      | Inr d \<Rightarrow> (\<exists>d'. res' = Inr d' \<and>
          length ?H \<le> d \<and> d < length (?H @ G) \<and> length ?H' \<le> d' \<and> d' < length (?H' @ G') \<and>
          (?H @ G) ! d = (?H' @ G') ! d' \<and> length ((?H @ G) ! d) = 32)"
    and val: "(case res of Inl e \<Rightarrow> Inl e | Inr d \<Rightarrow> Inr ((?H @ G) ! d))
       = createMessageHash 1 43113 9999999999999999999 (?H ! 0) (?H ! 1) (?H ! 2) (?H ! 1)"
    by blast
  have "createMessageHash 1 43113 9999999999999999999 (?H ! 0) (?H ! 1) (?H ! 2) (?H ! 1)
      = Inr (keccak_256_digest ?bytes)"
    using createMessageHash_allData_fits [of 1 43113 9999999999999999999 "Buffer_from ''avax''"
        "[]" "Buffer_from ''hello''" "[]"]
    by (simp add: le_bytes_numeral Buffer_from_def createMessageHash_eq)
  with val obtain d where d: "res = Inr d" "(?H @ G) ! d = keccak_256_digest ?bytes"
    by (cases res) simp_all
  with same obtain d' where d': "res' = Inr d'" "(?H @ G) ! d = (?H' @ G') ! d'"
    by auto
  from run d d' show ?thesis
    by blast
qed


subsection \<open>The encoding can be read back\<close>


lemma le_value_le_bytes: "le_value (le_bytes n x) = x mod 256 ^ n"
proof (induction n arbitrary: x)
  case 0
  then show ?case by simp
next
  case (Suc n)
  have "unat (of_nat (x mod 256) :: byte) = x mod 256"
    by (simp add: unat_of_nat)
  with Suc show ?case
    by (simp add: mod_mult2_eq)
qed

lemma le_bytes_inj:
  assumes "x < 256 ^ n" "y < 256 ^ n" "le_bytes n x = le_bytes n y"
  shows "x = y"
proof -
  have "le_value (le_bytes n x) = le_value (le_bytes n y)"
    using assms(3) by simp
  then show ?thesis
    using assms(1,2) by (simp add: le_value_le_bytes)
qed

lemma prefixed_inj:
  assumes "length a < 2 ^ 32" "length b < 2 ^ 32"
    and "le_bytes 4 (length a) @ a @ u = le_bytes 4 (length b) @ b @ v"
  shows "a = b \<and> u = v"
proof -
  from assms(3) have "le_bytes 4 (length a) = le_bytes 4 (length b)" and rest: "a @ u = b @ v"
    by simp_all
  with assms(1,2) have "length a = length b"
    by (intro le_bytes_inj [of _ 4]) simp_all
  with rest show ?thesis by simp
qed

lemma allData_inj:
  assumes "t < 2 ^ 128" "t' < 2 ^ 128" "s < 2 ^ 64" "s' < 2 ^ 64" "d < 2 ^ 64" "d' < 2 ^ 64"
    and "length a < 2 ^ 32" "length a' < 2 ^ 32" "length b < 2 ^ 32" "length b' < 2 ^ 32"
    and "length c < 2 ^ 32" "length c' < 2 ^ 32" "length e < 2 ^ 32" "length e' < 2 ^ 32"
    and eq: "le_bytes 16 t @ le_bytes 8 s @ le_bytes 8 d
          @ le_bytes 4 (length a) @ a @ le_bytes 4 (length b) @ b
          @ le_bytes 4 (length c) @ c @ le_bytes 4 (length e) @ e
        = le_bytes 16 t' @ le_bytes 8 s' @ le_bytes 8 d'
          @ le_bytes 4 (length a') @ a' @ le_bytes 4 (length b') @ b'
          @ le_bytes 4 (length c') @ c' @ le_bytes 4 (length e') @ e'"
  shows "t = t' \<and> s = s' \<and> d = d' \<and> a = a' \<and> b = b' \<and> c = c' \<and> e = e'"
proof -
  from eq have t: "le_bytes 16 t = le_bytes 16 t'" and s: "le_bytes 8 s = le_bytes 8 s'"
    and d: "le_bytes 8 d = le_bytes 8 d'"
    and r1: "le_bytes 4 (length a) @ a @ (le_bytes 4 (length b) @ b
          @ le_bytes 4 (length c) @ c @ le_bytes 4 (length e) @ e)
        = le_bytes 4 (length a') @ a' @ (le_bytes 4 (length b') @ b'
          @ le_bytes 4 (length c') @ c' @ le_bytes 4 (length e') @ e')"
    by simp_all
  from t assms(1,2) have "t = t'" by (intro le_bytes_inj [of _ 16]) simp_all
  moreover from s assms(3,4) have "s = s'" by (intro le_bytes_inj [of _ 8]) simp_all
  moreover from d assms(5,6) have "d = d'" by (intro le_bytes_inj [of _ 8]) simp_all
  moreover from prefixed_inj [OF assms(7,8) r1]
  have "a = a'" and r2: "le_bytes 4 (length b) @ b @ (le_bytes 4 (length c) @ c
          @ le_bytes 4 (length e) @ e)
        = le_bytes 4 (length b') @ b' @ (le_bytes 4 (length c') @ c'
          @ le_bytes 4 (length e') @ e')"
    by simp_all
  moreover from prefixed_inj [OF assms(9,10) r2]
  have "b = b'" and r3: "le_bytes 4 (length c) @ c @ (le_bytes 4 (length e) @ e)
        = le_bytes 4 (length c') @ c' @ (le_bytes 4 (length e') @ e')"
    by simp_all
  moreover from prefixed_inj [OF assms(11,12) r3]
  have "c = c'" and r4: "le_bytes 4 (length e) @ e @ [] = le_bytes 4 (length e') @ e' @ []"
    by simp_all
  moreover from prefixed_inj [OF assms(13,14) r4] have "e = e'" by simp
  ultimately show ?thesis by simp
qed

text \<open>
  C8. The bytes \<open>createMessageHash\<close> hashes determine the message. For two messages within
  the bounds of the data model (transaction id an unsigned value below \<open>2 ^ 128\<close>, chain
  ids unsigned values below \<open>2 ^ 64\<close>, sender and recipient of at most 64 bytes, on-chain
  data of at most 1024 and off-chain data of at most 4096 bytes) that differ in some field,
  the two byte strings fed to Keccak-256 exist and differ; so if the two digests are equal,
  the two byte strings are a collision of Keccak-256.
\<close>

theorem canonical_encoding_injective:
  assumes "0 \<le> txId" "txId < 2 ^ 128" "0 \<le> src" "src < 2 ^ 64" "0 \<le> dst" "dst < 2 ^ 64"
    and "length sender \<le> 64" "length recipient \<le> 64"
    and "length onChainData \<le> 1024" "length offChainData \<le> 4096"
    and "0 \<le> txId'" "txId' < 2 ^ 128" "0 \<le> src'" "src' < 2 ^ 64" "0 \<le> dst'" "dst' < 2 ^ 64"
    and "length sender' \<le> 64" "length recipient' \<le> 64"
    and "length onChainData' \<le> 1024" "length offChainData' \<le> 4096"
    and differ: "(txId, src, dst, sender, recipient, onChainData, offChainData)
               \<noteq> (txId', src', dst', sender', recipient', onChainData', offChainData')"
  shows "\<exists>x y.
     createMessageHash_allData txId src dst sender recipient onChainData offChainData = Inr x \<and>
     createMessageHash_allData txId' src' dst' sender' recipient' onChainData' offChainData'
       = Inr y \<and>
     x \<noteq> y \<and>
     (createMessageHash txId src dst sender recipient onChainData offChainData
        = createMessageHash txId' src' dst' sender' recipient' onChainData' offChainData'
      \<longrightarrow> keccak_256 x = keccak_256 y)"
proof -
  let ?x = "le_bytes 16 (nat txId) @ le_bytes 8 (nat src) @ le_bytes 8 (nat dst)
          @ le_bytes 4 (length sender) @ sender @ le_bytes 4 (length recipient) @ recipient
          @ le_bytes 4 (length onChainData) @ onChainData
          @ le_bytes 4 (length offChainData) @ offChainData"
  let ?y = "le_bytes 16 (nat txId') @ le_bytes 8 (nat src') @ le_bytes 8 (nat dst')
          @ le_bytes 4 (length sender') @ sender' @ le_bytes 4 (length recipient') @ recipient'
          @ le_bytes 4 (length onChainData') @ onChainData'
          @ le_bytes 4 (length offChainData') @ offChainData'"
  have lens: "length sender < 2 ^ 32" "length recipient < 2 ^ 32"
      "length onChainData < 2 ^ 32" "length offChainData < 2 ^ 32"
      "length sender' < 2 ^ 32" "length recipient' < 2 ^ 32"
      "length onChainData' < 2 ^ 32" "length offChainData' < 2 ^ 32"
    using assms(7-10,17-20) by simp_all
  have x: "createMessageHash_allData txId src dst sender recipient onChainData offChainData
             = Inr ?x"
    using assms(1-6) lens(1-4) by (rule createMessageHash_allData_fits)
  have y: "createMessageHash_allData txId' src' dst' sender' recipient' onChainData'
             offChainData' = Inr ?y"
    using assms(11-16) lens(5-8) by (rule createMessageHash_allData_fits)
  have ne: "?x \<noteq> ?y"
  proof
    assume "?x = ?y"
    then have "nat txId = nat txId' \<and> nat src = nat src' \<and> nat dst = nat dst' \<and>
        sender = sender' \<and> recipient = recipient' \<and> onChainData = onChainData' \<and>
        offChainData = offChainData'"
      using assms(1-6,11-16) lens
      by (intro allData_inj) (simp_all add: nat_less_iff)
    with assms(1,3,5,11,13,15) differ show False by (auto simp: nat_eq_iff)
  qed
  have "keccak_256 ?x = keccak_256 ?y"
    if "createMessageHash txId src dst sender recipient onChainData offChainData
        = createMessageHash txId' src' dst' sender' recipient' onChainData' offChainData'"
    using that x y by (simp add: createMessageHash_def keccak_256_def)
  with x y ne show ?thesis by blast
qed

theorem canonical_encoding_injective_witness:
  "\<exists>x y.
     createMessageHash_allData 1 43113 9999999999999999999 (Buffer_from ''avax'') []
       (Buffer_from ''hello'') [] = Inr x \<and>
     createMessageHash_allData 1 43113 9999999999999999999 (Buffer_from ''avax'') []
       (Buffer_from ''jello'') [] = Inr y \<and>
     x \<noteq> y"
proof -
  have "\<exists>x y.
     createMessageHash_allData 1 43113 9999999999999999999 (Buffer_from ''avax'') []
       (Buffer_from ''hello'') [] = Inr x \<and>
     createMessageHash_allData 1 43113 9999999999999999999 (Buffer_from ''avax'') []
       (Buffer_from ''jello'') [] = Inr y \<and>
     x \<noteq> y \<and>
     (createMessageHash 1 43113 9999999999999999999 (Buffer_from ''avax'') []
        (Buffer_from ''hello'') []
      = createMessageHash 1 43113 9999999999999999999 (Buffer_from ''avax'') []
        (Buffer_from ''jello'') []
      \<longrightarrow> keccak_256 x = keccak_256 y)"
    by (rule canonical_encoding_injective) (simp_all add: Buffer_from_def)
  then show ?thesis by blast
qed

subsection \<open>Transactions carrying signatures\<close>

lemma createEd25519Instruction_eq_Inr:
  "createEd25519Instruction sg pk m = Inr ins \<longleftrightarrow>
     length pk = 32 \<and> length sg = 64 \<and> ins = Ed25519Instruction pk m sg"
  by (auto simp: createEd25519Instruction_def)

lemma add_signature_instructions_eq_Inr:
  "add_signature_instructions h tx sigs = Inr tx' \<longleftrightarrow>
     (\<forall>s \<in> set sigs. length (signer s) = 32 \<and> length (signature s) = 64) \<and>
     tx' = tx @ map (\<lambda>s. Ed25519Instruction (signer s) h (signature s)) sigs"
proof (induction sigs arbitrary: tx)
  case Nil
  then show ?case by auto
next
  case (Cons s sigs)
  show ?case
    by (auto simp: and_then_eq_Inr createEd25519Instruction_eq_Inr Cons.IH)
qed

lemma getGatewayPda_ok:
  "0 \<le> c \<Longrightarrow> c < 2 ^ 64 \<Longrightarrow>
   getGatewayPda fpa pid (Some c) = Inr (fst (fpa [Buffer_from ''gateway'', le_bytes 8 (nat c)] pid))"
  by (simp add: getGatewayPda_def)

lemma getSignerRegistryPda_ok:
  "0 \<le> c \<Longrightarrow> c < 2 ^ 64 \<Longrightarrow>
   getSignerRegistryPda fpa pid rt (Some c)
     = Inr (fst (fpa [Buffer_from ''signer_registry'',
                      [of_nat (registryTypeToDiscriminant rt)], le_bytes 8 (nat c)] pid))"
  by (simp add: getSignerRegistryPda_def)

lemma getCounterPda_ok:
  "0 \<le> c \<Longrightarrow> c < 2 ^ 64 \<Longrightarrow>
   getCounterPda fpa pid (Some c) = Inr (fst (fpa [Buffer_from ''counter'', le_bytes 8 (nat c)] pid))"
  by (simp add: getCounterPda_def)

lemma getTxIdPda_ok:
  "0 \<le> c \<Longrightarrow> c < 2 ^ 64 \<Longrightarrow> 0 \<le> t \<Longrightarrow> t < 2 ^ 128 \<Longrightarrow>
   getTxIdPda fpa pid (Some c) (Some t)
     = Inr (fst (fpa [Buffer_from ''tx'', le_bytes 8 (nat c), le_bytes 16 (nat t)] pid))"
  by (simp add: getTxIdPda_def)

lemmas pda_ok = getGatewayPda_ok getSignerRegistryPda_ok getCounterPda_ok getTxIdPda_ok

text \<open>
  C6. When \<open>createTxPdaWithSignatures\<close> or \<open>processMessageWithSignatures\<close> builds its
  transaction, the transaction is: for each submitted signature, in order, one instruction
  of the Ed25519 program verifying that signature, under its signer's key, over the digest
  \<open>createMessageHash\<close> returns for the same seven message fields, which has 32 bytes and is
  passed whole; and after all of these the one call of the gateway program, which carries
  the same fields and the same signatures. For a message of the data model and signatures of
  64 bytes under keys of 32 bytes both functions do build their transaction.
\<close>

theorem signature_transactions:
  "(createTxPdaWithSignatures fpa client txId src dst sender recipient onChainData offChainData
       sigs = Inr tx \<longrightarrow>
     (\<exists>h accounts.
        createMessageHash txId src dst sender recipient onChainData offChainData = Inr h \<and>
        length h = 32 \<and>
        tx = map (\<lambda>s. Ed25519Instruction (signer s) h (signature s)) sigs
             @ [MethodInstruction ''createTxPda''
                  (MessageArgs txId src dst sender recipient onChainData offChainData
                     (formatSignaturesForAnchor sigs)) accounts])) \<and>
   (processMessageWithSignatures fpa client txId src dst sender recipient onChainData
       offChainData sigs = Inr tx' \<longrightarrow>
     (\<exists>h accounts.
        createMessageHash txId src dst sender recipient onChainData offChainData = Inr h \<and>
        length h = 32 \<and>
        tx' = map (\<lambda>s. Ed25519Instruction (signer s) h (signature s)) sigs
              @ [MethodInstruction ''processMessage''
                   (MessageArgs txId src dst sender recipient onChainData offChainData
                      (formatSignaturesForAnchor sigs)) accounts])) \<and>
   (0 \<le> txId \<and> txId < 2 ^ 128 \<and> 0 \<le> src \<and> src < 2 ^ 64 \<and> 0 \<le> dst \<and> dst < 2 ^ 64 \<and>
    length sender < 2 ^ 32 \<and> length recipient < 2 ^ 32 \<and>
    length onChainData < 2 ^ 32 \<and> length offChainData < 2 ^ 32 \<and>
    (\<forall>s \<in> set sigs. length (signer s) = 32 \<and> length (signature s) = 64) \<longrightarrow>
     (\<exists>t1. createTxPdaWithSignatures fpa client txId src dst sender recipient onChainData
              offChainData sigs = Inr t1) \<and>
     (\<exists>t2. processMessageWithSignatures fpa client txId src dst sender recipient onChainData
              offChainData sigs = Inr t2))"
proof (intro conjI impI)
  assume "createTxPdaWithSignatures fpa client txId src dst sender recipient onChainData
            offChainData sigs = Inr tx"
  then show "\<exists>h accounts.
        createMessageHash txId src dst sender recipient onChainData offChainData = Inr h \<and>
        length h = 32 \<and>
        tx = map (\<lambda>s. Ed25519Instruction (signer s) h (signature s)) sigs
             @ [MethodInstruction ''createTxPda''
                  (MessageArgs txId src dst sender recipient onChainData offChainData
                     (formatSignaturesForAnchor sigs)) accounts]"
    by (auto simp: createTxPdaWithSignatures_def and_then_eq_Inr
        add_signature_instructions_eq_Inr dest: createMessageHash_length)
next
  assume "processMessageWithSignatures fpa client txId src dst sender recipient onChainData
            offChainData sigs = Inr tx'"
  then show "\<exists>h accounts.
        createMessageHash txId src dst sender recipient onChainData offChainData = Inr h \<and>
        length h = 32 \<and>
        tx' = map (\<lambda>s. Ed25519Instruction (signer s) h (signature s)) sigs
              @ [MethodInstruction ''processMessage''
                   (MessageArgs txId src dst sender recipient onChainData offChainData
                      (formatSignaturesForAnchor sigs)) accounts]"
    by (auto simp: processMessageWithSignatures_def and_then_eq_Inr
        add_signature_instructions_eq_Inr dest: createMessageHash_length)
next
  assume v: "0 \<le> txId \<and> txId < 2 ^ 128 \<and> 0 \<le> src \<and> src < 2 ^ 64 \<and> 0 \<le> dst \<and> dst < 2 ^ 64 \<and>
    length sender < 2 ^ 32 \<and> length recipient < 2 ^ 32 \<and>
    length onChainData < 2 ^ 32 \<and> length offChainData < 2 ^ 32 \<and>
    (\<forall>s \<in> set sigs. length (signer s) = 32 \<and> length (signature s) = 64)"
  then obtain h where h: "createMessageHash txId src dst sender recipient onChainData
                            offChainData = Inr h"
    by (simp add: createMessageHash_eq createMessageHash_allData_fits)
  from v have sg: "add_signature_instructions h [] sigs
      = Inr (map (\<lambda>s. Ed25519Instruction (signer s) h (signature s)) sigs)"
    by (simp add: add_signature_instructions_eq_Inr)
  from v show "\<exists>t1. createTxPdaWithSignatures fpa client txId src dst sender recipient
                      onChainData offChainData sigs = Inr t1"
    by (simp add: createTxPdaWithSignatures_def h sg pda_ok)
  from v show "\<exists>t2. processMessageWithSignatures fpa client txId src dst sender recipient
                      onChainData offChainData sigs = Inr t2"
    by (simp add: processMessageWithSignatures_def h sg pda_ok)
qed

theorem signature_transactions_witness:
  "\<exists>h accounts.
     createMessageHash 1 43113 9999999999999999999 (Buffer_from ''avax'') []
       (Buffer_from ''hello'') [] = Inr h \<and>
     length h = 32 \<and>
     createTxPdaWithSignatures (\<lambda>seeds p. (concat seeds @ p, 255))
       \<lparr>client_programId = [7], client_wallet = [9]\<rparr>
       1 43113 9999999999999999999 (Buffer_from ''avax'') [] (Buffer_from ''hello'') []
       [\<lparr>signature = replicate 64 1, signer = replicate 32 2\<rparr>,
        \<lparr>signature = replicate 64 3, signer = replicate 32 4\<rparr>]
     = Inr [Ed25519Instruction (replicate 32 2) h (replicate 64 1),
            Ed25519Instruction (replicate 32 4) h (replicate 64 3),
            MethodInstruction ''createTxPda''
              (MessageArgs 1 43113 9999999999999999999 (Buffer_from ''avax'') []
                 (Buffer_from ''hello'') []
                 [(replicate 64 1, replicate 32 2), (replicate 64 3, replicate 32 4)])
              accounts]"
proof -
  let ?F = "\<lambda>seeds p. (concat seeds @ p, 255 :: nat) :: Buffer \<times> nat"
  let ?C = "\<lparr>client_programId = [7], client_wallet = [9]\<rparr>"
  let ?S = "[\<lparr>signature = replicate 64 1, signer = replicate 32 2\<rparr>,
             \<lparr>signature = replicate 64 3, signer = replicate 32 4\<rparr>]"
  obtain t1 where t1: "createTxPdaWithSignatures ?F ?C 1 43113 9999999999999999999
      (Buffer_from ''avax'') [] (Buffer_from ''hello'') [] ?S = Inr t1"
    using signature_transactions [of ?F ?C 1 43113 9999999999999999999 "Buffer_from ''avax''"
        "[]" "Buffer_from ''hello''" "[]" ?S "[]" "[]"]
    by (auto simp: Buffer_from_def)
  show ?thesis
    using signature_transactions [of ?F ?C 1 43113 9999999999999999999 "Buffer_from ''avax''"
        "[]" "Buffer_from ''hello''" "[]" ?S t1 "[]"] t1
    by (auto simp: formatSignaturesForAnchor_def)
qed


subsection \<open>The registries a processing call names\<close>

lemma client_getGatewayPda_ok:
  "client_getGatewayPda fpa pid
     = Inr (fst (fpa [Buffer_from ''gateway'', le_bytes 8 9999999999999999999] pid))"
  by (simp add: client_getGatewayPda_def SOLANA_CHAIN_ID_def)

lemma client_getSignerRegistryPdaForChain_ok:
  "0 \<le> c \<Longrightarrow> c < 2 ^ 64 \<Longrightarrow>
   client_getSignerRegistryPdaForChain fpa pid rt c
     = Inr (fst (fpa [Buffer_from ''signer_registry'',
                      [of_nat (registryTypeToDiscriminant rt)], le_bytes 8 (nat c)] pid))"
  by (simp add: client_registry_pda_eq getSignerRegistryPda_ok)

lemma client_getTxIdPda_ok:
  "0 \<le> c \<Longrightarrow> c < 2 ^ 64 \<Longrightarrow> 0 \<le> t \<Longrightarrow> t < 2 ^ 128 \<Longrightarrow>
   client_getTxIdPda fpa pid c t
     = Inr (fst (fpa [Buffer_from ''tx'', le_bytes 8 (nat c), le_bytes 16 (nat t)] pid))"
  by (simp add: client_tx_pda_eq getTxIdPda_ok)

text \<open>
  C10. Every processing call names its three registries under two chains. For a message of
  the data model, \<open>processMessage\<close> of the SDK, the script's \<open>execute\<close> and
  \<open>processMessageWithSignatures\<close> all build the call \<open>processMessage\<close> whose \<open>viaRegistry\<close>
  and \<open>projectRegistry\<close> accounts are the registry addresses of layers 0 and 2 derived
  from the destination chain id, and whose \<open>chainRegistry\<close> account is the registry address
  of layer 1 derived from the source chain id; when the two chain ids differ, so do the
  chain-id seeds of these derivations.
\<close>

theorem processing_registries:
  assumes "0 \<le> txId" "txId < 2 ^ 128" "0 \<le> src" "src < 2 ^ 64" "0 \<le> dst" "dst < 2 ^ 64"
    and "length sender < 2 ^ 32" "length recipient < 2 ^ 32"
    and "length onChainData < 2 ^ 32" "length offChainData < 2 ^ 32"
    and "\<forall>s \<in> set sigs. length (signer s) = 32 \<and> length (signature s) = 64"
  shows "(processMessage fpa client txId src dst sender recipient onChainData offChainData
           anchorSigs
         = Inr (MethodInstruction ''processMessage''
             (MessageArgs txId src dst sender recipient onChainData offChainData anchorSigs)
             [(''gateway'', fst (fpa [Buffer_from ''gateway'', le_bytes 8 (nat dst)]
                      (client_programId client))),
              (''txIdPda'',
               fst (fpa [Buffer_from ''tx'', le_bytes 8 (nat src), le_bytes 16 (nat txId)]
                      (client_programId client))),
              (''viaRegistry'',
               fst (fpa [Buffer_from ''signer_registry'', [0], le_bytes 8 (nat dst)]
                      (client_programId client))),
              (''chainRegistry'',
               fst (fpa [Buffer_from ''signer_registry'', [1], le_bytes 8 (nat src)]
                      (client_programId client))),
              (''projectRegistry'',
               fst (fpa [Buffer_from ''signer_registry'', [2], le_bytes 8 (nat dst)]
                      (client_programId client))),
              (''relayer'', client_wallet client)])) \<and>
        (ProcessMessageExecutor_execute fpa client txId src dst sender recipient onChainData
           offChainData anchorSigs
         = Inr (Some (MethodInstruction ''processMessage''
             (MessageArgs txId src dst sender recipient onChainData offChainData anchorSigs)
             [(''gateway'', fst (fpa [Buffer_from ''gateway'', le_bytes 8 9999999999999999999]
                      (client_programId client))),
              (''txIdPda'',
               fst (fpa [Buffer_from ''tx'', le_bytes 8 (nat src), le_bytes 16 (nat txId)]
                      (client_programId client))),
              (''viaRegistry'',
               fst (fpa [Buffer_from ''signer_registry'', [0], le_bytes 8 (nat dst)]
                      (client_programId client))),
              (''chainRegistry'',
               fst (fpa [Buffer_from ''signer_registry'', [1], le_bytes 8 (nat src)]
                      (client_programId client))),
              (''projectRegistry'',
               fst (fpa [Buffer_from ''signer_registry'', [2], le_bytes 8 (nat dst)]
                      (client_programId client))),
              (''relayer'', client_wallet client)]))) \<and>
        (\<exists>h. createMessageHash txId src dst sender recipient onChainData offChainData = Inr h \<and>
         processMessageWithSignatures fpa client txId src dst sender recipient onChainData
           offChainData sigs
         = Inr (map (\<lambda>s. Ed25519Instruction (signer s) h (signature s)) sigs @
            [MethodInstruction ''processMessage''
             (MessageArgs txId src dst sender recipient onChainData offChainData
                (formatSignaturesForAnchor sigs))
             [(''gateway'', fst (fpa [Buffer_from ''gateway'', le_bytes 8 (nat dst)]
                      (client_programId client))),
              (''txIdPda'',
               fst (fpa [Buffer_from ''tx'', le_bytes 8 (nat src), le_bytes 16 (nat txId)]
                      (client_programId client))),
              (''viaRegistry'',
               fst (fpa [Buffer_from ''signer_registry'', [0], le_bytes 8 (nat dst)]
                      (client_programId client))),
              (''chainRegistry'',
               fst (fpa [Buffer_from ''signer_registry'', [1], le_bytes 8 (nat src)]
                      (client_programId client))),
              (''projectRegistry'',
               fst (fpa [Buffer_from ''signer_registry'', [2], le_bytes 8 (nat dst)]
                      (client_programId client))),
              (''relayer'', client_wallet client),
              (''instructions'', SYSVAR_INSTRUCTIONS_PUBKEY)]])) \<and>
        (src \<noteq> dst \<longrightarrow> le_bytes 8 (nat src) \<noteq> le_bytes 8 (nat dst))"
proof (intro conjI)
  show "processMessage fpa client txId src dst sender recipient onChainData offChainData
           anchorSigs
         = Inr (MethodInstruction ''processMessage''
             (MessageArgs txId src dst sender recipient onChainData offChainData anchorSigs)
             [(''gateway'', fst (fpa [Buffer_from ''gateway'', le_bytes 8 (nat dst)]
                      (client_programId client))),
              (''txIdPda'',
               fst (fpa [Buffer_from ''tx'', le_bytes 8 (nat src), le_bytes 16 (nat txId)]
                      (client_programId client))),
              (''viaRegistry'',
               fst (fpa [Buffer_from ''signer_registry'', [0], le_bytes 8 (nat dst)]
                      (client_programId client))),
              (''chainRegistry'',
               fst (fpa [Buffer_from ''signer_registry'', [1], le_bytes 8 (nat src)]
                      (client_programId client))),
              (''projectRegistry'',
               fst (fpa [Buffer_from ''signer_registry'', [2], le_bytes 8 (nat dst)]
                      (client_programId client))),
              (''relayer'', client_wallet client)])"
    using assms(1-6) by (simp add: processMessage_def pda_ok)
  show "ProcessMessageExecutor_execute fpa client txId src dst sender recipient onChainData
           offChainData anchorSigs
         = Inr (Some (MethodInstruction ''processMessage''
             (MessageArgs txId src dst sender recipient onChainData offChainData anchorSigs)
             [(''gateway'', fst (fpa [Buffer_from ''gateway'', le_bytes 8 9999999999999999999]
                      (client_programId client))),
              (''txIdPda'',
               fst (fpa [Buffer_from ''tx'', le_bytes 8 (nat src), le_bytes 16 (nat txId)]
                      (client_programId client))),
              (''viaRegistry'',
               fst (fpa [Buffer_from ''signer_registry'', [0], le_bytes 8 (nat dst)]
                      (client_programId client))),
              (''chainRegistry'',
               fst (fpa [Buffer_from ''signer_registry'', [1], le_bytes 8 (nat src)]
                      (client_programId client))),
              (''projectRegistry'',
               fst (fpa [Buffer_from ''signer_registry'', [2], le_bytes 8 (nat dst)]
                      (client_programId client))),
              (''relayer'', client_wallet client)]))"
    using assms(1-6)
    by (simp add: ProcessMessageExecutor_execute_def client_getGatewayPda_ok
        client_getSignerRegistryPdaForChain_ok client_getTxIdPda_ok)
  obtain h where h: "createMessageHash txId src dst sender recipient onChainData
                            offChainData = Inr h"
    using assms(1-10) by (simp add: createMessageHash_eq createMessageHash_allData_fits)
  from assms(11) have sg: "add_signature_instructions h [] sigs
      = Inr (map (\<lambda>s. Ed25519Instruction (signer s) h (signature s)) sigs)"
    by (simp add: add_signature_instructions_eq_Inr)
  show "\<exists>h. createMessageHash txId src dst sender recipient onChainData offChainData = Inr h \<and>
         processMessageWithSignatures fpa client txId src dst sender recipient onChainData
           offChainData sigs
         = Inr (map (\<lambda>s. Ed25519Instruction (signer s) h (signature s)) sigs @
            [MethodInstruction ''processMessage''
             (MessageArgs txId src dst sender recipient onChainData offChainData
                (formatSignaturesForAnchor sigs))
             [(''gateway'', fst (fpa [Buffer_from ''gateway'', le_bytes 8 (nat dst)]
                      (client_programId client))),
              (''txIdPda'',
               fst (fpa [Buffer_from ''tx'', le_bytes 8 (nat src), le_bytes 16 (nat txId)]
                      (client_programId client))),
              (''viaRegistry'',
               fst (fpa [Buffer_from ''signer_registry'', [0], le_bytes 8 (nat dst)]
                      (client_programId client))),
              (''chainRegistry'',
               fst (fpa [Buffer_from ''signer_registry'', [1], le_bytes 8 (nat src)]
                      (client_programId client))),
              (''projectRegistry'',
               fst (fpa [Buffer_from ''signer_registry'', [2], le_bytes 8 (nat dst)]
                      (client_programId client))),
              (''relayer'', client_wallet client),
              (''instructions'', SYSVAR_INSTRUCTIONS_PUBKEY)]])"
    using assms(1-6) by (simp add: processMessageWithSignatures_def h sg pda_ok)
  show "src \<noteq> dst \<longrightarrow> le_bytes 8 (nat src) \<noteq> le_bytes 8 (nat dst)"
  proof
    assume "src \<noteq> dst"
    show "le_bytes 8 (nat src) \<noteq> le_bytes 8 (nat dst)"
    proof
      assume "le_bytes 8 (nat src) = le_bytes 8 (nat dst)"
      with assms(3-6) have "nat src = nat dst"
        by (intro le_bytes_inj [of _ 8]) (simp_all add: nat_less_iff)
      with assms(3,5) \<open>src \<noteq> dst\<close> show False by simp
    qed
  qed
qed

theorem processing_registries_witness:
  "processMessage (\<lambda>seeds p. (concat seeds @ p, 255)) \<lparr>client_programId = [7], client_wallet = [9]\<rparr>
     1 43113 9999999999999999999 (Buffer_from ''avax'') [] (Buffer_from ''hello'') [] []
   = Inr (MethodInstruction ''processMessage''
       (MessageArgs 1 43113 9999999999999999999 (Buffer_from ''avax'') []
          (Buffer_from ''hello'') [] [])
       [(''gateway'', Buffer_from ''gateway'' @ [255, 255, 231, 137, 4, 35, 199, 138, 7]),
        (''txIdPda'', Buffer_from ''tx'' @ [105, 168, 0, 0, 0, 0, 0, 0,
                                           1, 0, 0, 0, 0, 0, 0, 0, 0, 0, 0, 0, 0, 0, 0, 0, 7]),
        (''viaRegistry'',
         Buffer_from ''signer_registry'' @ [0, 255, 255, 231, 137, 4, 35, 199, 138, 7]),
        (''chainRegistry'',
         Buffer_from ''signer_registry'' @ [1, 105, 168, 0, 0, 0, 0, 0, 0, 7]),
        (''projectRegistry'',
         Buffer_from ''signer_registry'' @ [2, 255, 255, 231, 137, 4, 35, 199, 138, 7]),
        (''relayer'', [9])])"
  using processing_registries [where txId = 1 and src = 43113 and dst = 9999999999999999999
      and sender = "Buffer_from ''avax''" and recipient = "[]"
      and onChainData = "Buffer_from ''hello''" and offChainData = "[]" and sigs = "[]"
      and fpa = "\<lambda>seeds p. (concat seeds @ p, 255)"
      and client = "\<lparr>client_programId = [7], client_wallet = [9]\<rparr>" and anchorSigs = "[]"]
  by (simp add: le_bytes_numeral Buffer_from_def)

subsection \<open>The setup workflow\<close>

lemma startsWith_iff: "startsWith s sub \<longleftrightarrow> (\<exists>q. s = sub @ q)"
  by (induction s sub rule: startsWith.induct) auto

lemma String_includes_iff: "String_includes s sub \<longleftrightarrow> (\<exists>p q. s = p @ sub @ q)"
proof (induction s)
  case Nil
  then show ?case by (simp add: startsWith_iff)
next
  case (Cons x xs)
  show ?case
  proof
    assume "String_includes (x # xs) sub"
    then consider "startsWith (x # xs) sub" | "String_includes xs sub" by auto
    then show "\<exists>p q. x # xs = p @ sub @ q"
    proof cases
      case 1
      then obtain q where "x # xs = sub @ q" by (auto simp: startsWith_iff)
      then have "x # xs = [] @ sub @ q" by simp
      then show ?thesis by blast
    next
      case 2
      then obtain p q where "xs = p @ sub @ q" using Cons.IH by blast
      then have "x # xs = (x # p) @ sub @ q" by simp
      then show ?thesis by blast
    qed
  next
    assume "\<exists>p q. x # xs = p @ sub @ q"
    then obtain p q where pq: "x # xs = p @ sub @ q" by blast
    show "String_includes (x # xs) sub"
    proof (cases p)
      case Nil
      with pq have "startsWith (x # xs) sub" by (auto simp: startsWith_iff)
      then show ?thesis by simp
    next
      case (Cons y ys)
      with pq have "xs = ys @ sub @ q" by simp
      then have "String_includes xs sub" using Cons.IH by blast
      then show ?thesis by simp
    qed
  qed
qed


lemma step_done_iff:
  "step_done sdk c \<longleftrightarrow> sdk c = None \<or> (\<exists>e. sdk c = Some e \<and> already_in_use e)"
  by (auto simp: step_done_def split: option.splits)

lemma already_in_use_iff:
  "already_in_use err \<longleftrightarrow>
     (\<exists>m p q. error_message err = Some m \<and> m = p @ ''already in use'' @ q)"
  by (auto simp: already_in_use_def String_includes_iff split: option.splits)

lemma attempt_done [simp]:
  "step_done sdk c \<Longrightarrow> attempt sdk c calls = (Inr (), calls @ [c])"
  by (auto simp: attempt_def step_done_def split: option.splits)

lemma attempt_rethrown [simp]:
  "sdk c = Some e \<Longrightarrow> \<not> already_in_use e \<Longrightarrow> attempt sdk c calls = (Inl e, calls @ [c])"
  by (simp add: attempt_def)

text \<open>
  C7. In \<open>setupChain\<close> a step (gateway, counter, or one of the three registries, in this
  order) whose call throws an error with a message containing "already in use" counts as
  done, like a step whose call returns, and the function goes on to the next step; when
  every step ends in one of these two ways all five calls are made and the function
  returns. The first step whose call throws anything else (an error with another message,
  or a value without a message) ends the function: that same value is rethrown and no
  later step is called.
\<close>

theorem setupChain_absorbs_only_already_in_use:
  "(already_in_use err \<longleftrightarrow>
            (\<exists>m p q. error_message err = Some m \<and> m = p @ ''already in use'' @ q)) \<and>
         (step_done sdk call \<longleftrightarrow>
            sdk call = None \<or> (\<exists>e'. sdk call = Some e' \<and> already_in_use e')) \<and>
         (step_done sdk (InitializeGateway chainId) \<and>
          step_done sdk (InitializeCounter chainId) \<and>
          step_done sdk (InitializeRegistry Via chainId [wallet] 1) \<and>
          step_done sdk (InitializeRegistry Chain chainId [wallet] 1) \<and>
          step_done sdk (InitializeRegistry Project chainId [wallet] 1)
          \<longrightarrow>
            setupChain sdk wallet chainId =
              (Inr (),
               [InitializeGateway chainId,
                InitializeCounter chainId,
                InitializeRegistry Via chainId [wallet] 1,
                InitializeRegistry Chain chainId [wallet] 1,
                InitializeRegistry Project chainId [wallet] 1])) \<and>
         (sdk (InitializeGateway chainId) = Some e \<and> \<not> already_in_use e \<longrightarrow>
            setupChain sdk wallet chainId =
              (Inl e,
               [InitializeGateway chainId])) \<and>
         (step_done sdk (InitializeGateway chainId) \<and>
          sdk (InitializeCounter chainId) = Some e \<and> \<not> already_in_use e \<longrightarrow>
            setupChain sdk wallet chainId =
              (Inl e,
               [InitializeGateway chainId,
                InitializeCounter chainId])) \<and>
         (step_done sdk (InitializeGateway chainId) \<and>
          step_done sdk (InitializeCounter chainId) \<and>
          sdk (InitializeRegistry Via chainId [wallet] 1) = Some e \<and> \<not> already_in_use e \<longrightarrow>
            setupChain sdk wallet chainId =
              (Inl e,
               [InitializeGateway chainId,
                InitializeCounter chainId,
                InitializeRegistry Via chainId [wallet] 1])) \<and>
         (step_done sdk (InitializeGateway chainId) \<and>
          step_done sdk (InitializeCounter chainId) \<and>
          step_done sdk (InitializeRegistry Via chainId [wallet] 1) \<and>
          sdk (InitializeRegistry Chain chainId [wallet] 1) = Some e \<and> \<not> already_in_use e \<longrightarrow>
            setupChain sdk wallet chainId =
              (Inl e,
               [InitializeGateway chainId,
                InitializeCounter chainId,
                InitializeRegistry Via chainId [wallet] 1,
                InitializeRegistry Chain chainId [wallet] 1])) \<and>
         (step_done sdk (InitializeGateway chainId) \<and>
          step_done sdk (InitializeCounter chainId) \<and>
          step_done sdk (InitializeRegistry Via chainId [wallet] 1) \<and>
          step_done sdk (InitializeRegistry Chain chainId [wallet] 1) \<and>
          sdk (InitializeRegistry Project chainId [wallet] 1) = Some e \<and> \<not> already_in_use e \<longrightarrow>
            setupChain sdk wallet chainId =
              (Inl e,
               [InitializeGateway chainId,
                InitializeCounter chainId,
                InitializeRegistry Via chainId [wallet] 1,
                InitializeRegistry Chain chainId [wallet] 1,
                InitializeRegistry Project chainId [wallet] 1]))"
  apply (intro conjI)
         apply (rule already_in_use_iff)
        apply (rule step_done_iff)
       apply (simp_all add: setupChain_def)
  done

theorem setupChain_absorbs_only_already_in_use_witness:
  "setupChain
     (\<lambda>call. case call of
         InitializeGateway n \<Rightarrow> Some (Error ''Allocate: account Address already in use'')
       | InitializeCounter n \<Rightarrow> None
       | InitializeRegistry t n ks th \<Rightarrow>
           (case t of Via \<Rightarrow> Some (Error ''custom program error: 0x0 already in use'')
            | Chain \<Rightarrow> Some (Error ''Transaction simulation failed: Blockhash not found'')
            | Project \<Rightarrow> None))
     [9] 43113
   = (Inl (Error ''Transaction simulation failed: Blockhash not found''),
      [InitializeGateway 43113, InitializeCounter 43113,
       InitializeRegistry Via 43113 [[9]] 1, InitializeRegistry Chain 43113 [[9]] 1])"
  using setupChain_absorbs_only_already_in_use
    [where chainId = 43113 and wallet = "[9]"
       and e = "Error ''Transaction simulation failed: Blockhash not found''"
       and sdk = "\<lambda>call. case call of
         InitializeGateway n \<Rightarrow> Some (Error ''Allocate: account Address already in use'')
       | InitializeCounter n \<Rightarrow> None
       | InitializeRegistry t n ks th \<Rightarrow>
           (case t of Via \<Rightarrow> Some (Error ''custom program error: 0x0 already in use'')
            | Chain \<Rightarrow> Some (Error ''Transaction simulation failed: Blockhash not found'')
            | Project \<Rightarrow> None)"]
  by (simp add: step_done_def already_in_use_def error_message_def)

subsection \<open>Replay protection\<close>

lemma toArrayLike_le_eq_Inr:
  assumes "0 < n"
  shows "toArrayLike_le x n = Inr b \<longleftrightarrow> nat \<bar>x\<bar> < 256 ^ n \<and> b = le_bytes n (nat \<bar>x\<bar>)"
  using assms by (auto simp: toArrayLike_le_def Let_def byteLength_le_iff)

lemma getTxIdPda_eq_Inr:
  "getTxIdPda fpa pid (Some c) (Some t) = Inr a \<longleftrightarrow>
     0 \<le> c \<and> c < 2 ^ 64 \<and> 0 \<le> t \<and> t < 2 ^ 128 \<and>
     a = fst (fpa [Buffer_from ''tx'', le_bytes 8 (nat c), le_bytes 16 (nat t)] pid)"
  by (auto simp: getTxIdPda_def and_then_eq_Inr validateChainId_iff validateTxId_iff
      toArrayLike_of_def CHAIN_ID_BYTES_def TX_ID_BYTES_def toArrayLike_le_eq_Inr
      nat_less_iff abs_if)

lemma createTxPda_eq_Inr:
  "createTxPda fpa client txId src dst sender recipient onChainData offChainData sigs = Inr call
   \<longleftrightarrow> (\<exists>key counter.
        getTxIdPda fpa (client_programId client) (Some src) (Some txId) = Inr key \<and>
        getCounterPda fpa (client_programId client) (Some src) = Inr counter \<and>
        call = MethodInstruction ''createTxPda''
                 (MessageArgs txId src dst sender recipient onChainData offChainData sigs)
                 [(''txIdPda'', key), (''counterPda'', counter),
                  (''relayer'', client_wallet client)])"
  by (auto simp: createTxPda_def and_then_eq_Inr)

lemma createRecord_eq_Inr:
  "createRecord markers key digest = Inr markers' \<longleftrightarrow>
     markers key = None \<and> markers' = markers(key \<mapsto> digest)"
  by (auto simp: createRecord_def split: option.splits)

lemma createRecord_held: "markers key = Some held \<Longrightarrow> createRecord markers key digest = Inl AlreadyExists"
  by (simp add: createRecord_def)

text \<open>
  C1. Once \<open>createTxPda\<close> has created the marker of a pair (source chain id, transaction
  id), a second \<open>createTxPda\<close> for the same pair fails with \<open>AlreadyExists\<close>, whatever the
  other fields and signatures of the second call are. The SDK names as the record to create
  the address derived from "tx", the source chain id in 8 bytes and the transaction id in
  16 bytes (least significant byte first) and from nothing else of the message; the first
  call found no marker at that address and left there the digest of the first message.
\<close>

theorem second_createTxPda_already_exists:
  assumes first: "createTxPda fpa client txId src dst sender recipient onChainData offChainData
                    sigs = Inr call1"
    and created: "program_createTxPda markers call1 = Inr markers1"
  shows "\<exists>call2 key.
     key = fst (fpa [Buffer_from ''tx'', le_bytes 8 (nat src), le_bytes 16 (nat txId)]
                  (client_programId client)) \<and>
     getTxIdPda fpa (client_programId client) (Some src) (Some txId) = Inr key \<and>
     markers key = None \<and>
     markers1 = markers(key \<mapsto> message_digest
         (MessageArgs txId src dst sender recipient onChainData offChainData sigs)) \<and>
     createTxPda fpa client txId src dst' sender' recipient' onChainData' offChainData' sigs'
       = Inr call2 \<and>
     program_createTxPda markers1 call2 = Inl AlreadyExists"
proof -
  from first obtain key counter where
    key: "getTxIdPda fpa (client_programId client) (Some src) (Some txId) = Inr key"
    and counter: "getCounterPda fpa (client_programId client) (Some src) = Inr counter"
    and call1: "call1 = MethodInstruction ''createTxPda''
                 (MessageArgs txId src dst sender recipient onChainData offChainData sigs)
                 [(''txIdPda'', key), (''counterPda'', counter),
                  (''relayer'', client_wallet client)]"
    by (auto simp: createTxPda_eq_Inr)
  from key have key_eq: "key = fst (fpa [Buffer_from ''tx'', le_bytes 8 (nat src),
      le_bytes 16 (nat txId)] (client_programId client))"
    by (simp add: getTxIdPda_eq_Inr)
  from created call1 have absent: "markers key = None"
    and m1: "markers1 = markers(key \<mapsto> message_digest
         (MessageArgs txId src dst sender recipient onChainData offChainData sigs))"
    by (simp_all add: createRecord_eq_Inr)
  let ?call2 = "MethodInstruction ''createTxPda''
                 (MessageArgs txId src dst' sender' recipient' onChainData' offChainData' sigs')
                 [(''txIdPda'', key), (''counterPda'', counter),
                  (''relayer'', client_wallet client)]"
  have second: "createTxPda fpa client txId src dst' sender' recipient' onChainData'
                  offChainData' sigs' = Inr ?call2"
    using key counter by (simp add: createTxPda_eq_Inr)
  have "program_createTxPda markers1 ?call2 = Inl AlreadyExists"
    using m1 by (simp add: createRecord_held)
  with key key_eq absent m1 second show ?thesis by blast
qed

theorem second_createTxPda_already_exists_witness:
  "\<exists>call1 markers1 call2.
     createTxPda (\<lambda>seeds p. (concat seeds @ p, 255)) \<lparr>client_programId = [7], client_wallet = [9]\<rparr>
       1 43113 9999999999999999999 (Buffer_from ''avax'') [] (Buffer_from ''hello'') [] []
       = Inr call1 \<and>
     program_createTxPda Map.empty call1 = Inr markers1 \<and>
     createTxPda (\<lambda>seeds p. (concat seeds @ p, 255)) \<lparr>client_programId = [7], client_wallet = [9]\<rparr>
       1 43113 9999999999999999999 (Buffer_from ''avax'') [] (Buffer_from ''other'') [] []
       = Inr call2 \<and>
     program_createTxPda markers1 call2 = Inl AlreadyExists"
proof -
  let ?F = "\<lambda>seeds p. (concat seeds @ p, 255 :: nat) :: Buffer \<times> nat"
  let ?C = "\<lparr>client_programId = [7], client_wallet = [9]\<rparr>"
  obtain call1 where 1: "createTxPda ?F ?C 1 43113 9999999999999999999 (Buffer_from ''avax'')
      [] (Buffer_from ''hello'') [] [] = Inr call1"
    and c1: "call1 = MethodInstruction ''createTxPda''
       (MessageArgs 1 43113 9999999999999999999 (Buffer_from ''avax'') [] (Buffer_from ''hello'')
          [] [])
       [(''txIdPda'', fst (?F [Buffer_from ''tx'', le_bytes 8 (nat 43113), le_bytes 16 (nat 1)] [7])),
        (''counterPda'', fst (?F [Buffer_from ''counter'', le_bytes 8 (nat 43113)] [7])),
        (''relayer'', [9])]"
    by (simp add: createTxPda_def getTxIdPda_ok getCounterPda_ok)
  obtain markers1 where 2: "program_createTxPda Map.empty call1 = Inr markers1"
    by (simp add: c1 createRecord_def)
  from second_createTxPda_already_exists [OF 1 2, of 9999999999999999999
      "Buffer_from ''avax''" "[]" "Buffer_from ''other''" "[]" "[]"] 1 2
  show ?thesis by blast
qed

subsection \<open>Evaluating Keccak-f\<close>

text \<open>
  The steps of a round written out lane by lane: the equations by which a state of 25
  given lanes is rewritten, and the rounds in groups.
\<close>

lemma upt_5: "[0..<5] = [0, 1, 2, 3, 4]"
  by (simp add: upt_conv_Cons)

lemma upt_24:
  "[0..<24] = [0, 1, 2, 3, 4, 5, 6, 7, 8, 9, 10, 11, 12, 13, 14, 15, 16, 17, 18, 19, 20, 21,
               22, 23]"
  by (simp add: upt_conv_Cons)

lemma upt_25:
  "[0..<25] = [0, 1, 2, 3, 4, 5, 6, 7, 8, 9, 10, 11, 12, 13, 14, 15, 16, 17, 18, 19, 20, 21,
               22, 23, 24]"
  by (simp add: upt_conv_Cons)

lemma theta_c_lanes:
  "theta_c [a0, a1, a2, a3, a4, a5, a6, a7, a8, a9, a10, a11, a12, a13, a14, a15, a16, a17, a18,
     a19, a20, a21, a22, a23, a24] =
    [a0 XOR a5 XOR a10 XOR a15 XOR a20,
     a1 XOR a6 XOR a11 XOR a16 XOR a21,
     a2 XOR a7 XOR a12 XOR a17 XOR a22,
     a3 XOR a8 XOR a13 XOR a18 XOR a23,
     a4 XOR a9 XOR a14 XOR a19 XOR a24]"
  by (simp add: theta_c_def upt_5)

lemma theta_d_lanes:
  "theta_d [c0, c1, c2, c3, c4] =
    [c4 XOR rotl64 1 c1,
     c0 XOR rotl64 1 c2,
     c1 XOR rotl64 1 c3,
     c2 XOR rotl64 1 c4,
     c3 XOR rotl64 1 c0]"
  by (simp add: theta_d_def upt_5)

lemma theta_apply_lanes:
  "theta_apply [a0, a1, a2, a3, a4, a5, a6, a7, a8, a9, a10, a11, a12, a13, a14, a15, a16, a17, a18,
     a19, a20, a21, a22, a23, a24] [d0, d1, d2, d3, d4] =
    [a0 XOR d0,
     a1 XOR d1,
     a2 XOR d2,
     a3 XOR d3,
     a4 XOR d4,
     a5 XOR d0,
     a6 XOR d1,
     a7 XOR d2,
     a8 XOR d3,
     a9 XOR d4,
     a10 XOR d0,
     a11 XOR d1,
     a12 XOR d2,
     a13 XOR d3,
     a14 XOR d4,
     a15 XOR d0,
     a16 XOR d1,
     a17 XOR d2,
     a18 XOR d3,
     a19 XOR d4,
     a20 XOR d0,
     a21 XOR d1,
     a22 XOR d2,
     a23 XOR d3,
     a24 XOR d4]"
  by (simp add: theta_apply_def upt_25)

lemma rho_pi_lanes:
  "rho_pi [a0, a1, a2, a3, a4, a5, a6, a7, a8, a9, a10, a11, a12, a13, a14, a15, a16, a17, a18,
     a19, a20, a21, a22, a23, a24] =
    [rotl64 0 a0,
     rotl64 44 a6,
     rotl64 43 a12,
     rotl64 21 a18,
     rotl64 14 a24,
     rotl64 28 a3,
     rotl64 20 a9,
     rotl64 3 a10,
     rotl64 45 a16,
     rotl64 61 a22,
     rotl64 1 a1,
     rotl64 6 a7,
     rotl64 25 a13,
     rotl64 8 a19,
     rotl64 18 a20,
     rotl64 27 a4,
     rotl64 36 a5,
     rotl64 10 a11,
     rotl64 15 a17,
     rotl64 56 a23,
     rotl64 62 a2,
     rotl64 55 a8,
     rotl64 39 a14,
     rotl64 41 a15,
     rotl64 2 a21]"
  by (simp add: rho_pi_def upt_25 rho_offsets_def Let_def)

lemma chi_lanes:
  "chi [a0, a1, a2, a3, a4, a5, a6, a7, a8, a9, a10, a11, a12, a13, a14, a15, a16, a17, a18,
     a19, a20, a21, a22, a23, a24] =
    [a0 XOR (not64 a1 AND a2),
     a1 XOR (not64 a2 AND a3),
     a2 XOR (not64 a3 AND a4),
     a3 XOR (not64 a4 AND a0),
     a4 XOR (not64 a0 AND a1),
     a5 XOR (not64 a6 AND a7),
     a6 XOR (not64 a7 AND a8),
     a7 XOR (not64 a8 AND a9),
     a8 XOR (not64 a9 AND a5),
     a9 XOR (not64 a5 AND a6),
     a10 XOR (not64 a11 AND a12),
     a11 XOR (not64 a12 AND a13),
     a12 XOR (not64 a13 AND a14),
     a13 XOR (not64 a14 AND a10),
     a14 XOR (not64 a10 AND a11),
     a15 XOR (not64 a16 AND a17),
     a16 XOR (not64 a17 AND a18),
     a17 XOR (not64 a18 AND a19),
     a18 XOR (not64 a19 AND a15),
     a19 XOR (not64 a15 AND a16),
     a20 XOR (not64 a21 AND a22),
     a21 XOR (not64 a22 AND a23),
     a22 XOR (not64 a23 AND a24),
     a23 XOR (not64 a24 AND a20),
     a24 XOR (not64 a20 AND a21)]"
  by (simp add: chi_def upt_25 Let_def)

lemma iota_lanes: "iota r (a # as) = (a XOR round_constants ! r) # as"
  by (simp add: iota_def)

lemma not64_numeral: "not64 w = 18446744073709551615 - w"
  by (simp add: not64_def)

lemmas keccak_round_eval =
  keccak_round_def theta_def theta_c_lanes theta_d_lanes theta_apply_lanes rho_pi_lanes
  chi_lanes iota_lanes rotl64_def not64_numeral round_constants_def

lemma keccak_rounds_append:
  "keccak_rounds (rs @ rs') a = keccak_rounds rs' (keccak_rounds rs a)"
  by (induction rs arbitrary: a) simp_all

lemma keccak_f_groups:
  "keccak_f a =
     keccak_rounds [18, 19, 20, 21, 22, 23]
       (keccak_rounds [12, 13, 14, 15, 16, 17]
         (keccak_rounds [6, 7, 8, 9, 10, 11]
           (keccak_rounds [0, 1, 2, 3, 4, 5] a)))"
proof -
  have "[0..<24] = [0, 1, 2, 3, 4, 5] @ [6, 7, 8, 9, 10, 11] @ [12, 13, 14, 15, 16, 17]
                     @ [18, 19, 20, 21, 22, 23 :: nat]"
    by (simp add: upt_24)
  then show ?thesis
    by (simp only: keccak_f_def keccak_rounds_append)
qed

lemma replicate_numeral: "replicate (numeral k) x = x # replicate (pred_numeral k) x"
  by (simp only: numeral_eq_Suc [of k] replicate.simps)

lemma absorb_one_block:
  "length p = 136 \<Longrightarrow> absorb s p = keccak_f (xor_block s (lanes_of_bytes p))"
  by (simp add: absorb.simps [of s p] absorb.simps [of _ "[]"])

lemma keccak_message_block:
  "xor_block (replicate 25 0) (lanes_of_bytes (keccak_pad
    [1, 0, 0, 0, 0, 0, 0, 0, 0, 0, 0, 0, 0, 0, 0, 0, 105, 168, 0, 0, 0, 0, 0, 0, 255, 255,
     231, 137, 4, 35, 199, 138, 4, 0, 0, 0, 97, 118, 97, 120, 0, 0, 0, 0, 5, 0, 0, 0, 104,
     101, 108, 108, 111, 0, 0, 0, 0])) =
    [1, 0, 43113, 9999999999999999999, 8674344516276191236, 21474836480, 478560413032, 256,
     0, 0, 0, 0, 0, 0, 0, 0, 9223372036854775808, 0, 0, 0, 0, 0, 0, 0, 0]"
  by (simp add: keccak_pad_def xor_block_def replicate_numeral)

lemma keccak_message_rounds_0:
  "keccak_rounds [0, 1, 2, 3, 4, 5]
    [1, 0, 43113, 9999999999999999999, 8674344516276191236, 21474836480, 478560413032, 256,
     0, 0, 0, 0, 0, 0, 0, 0, 9223372036854775808, 0, 0, 0, 0, 0, 0, 0, 0] =
    [18072874837061022489, 15889339588963471065, 8479033973281282720, 11157094592819553063,
     2058149732674453843, 6076096818180581686, 5764988667205026248, 9203320864417275872,
     1265792235850102556, 4262791726380539164, 4682762323761455300, 10197569634432966212,
     5359758156040822101, 13794896850330975018, 2201535097876771023, 6794446107738613626,
     4834703056119045408, 12135560260619857344, 4078885333102299478, 12848851327133845260,
     6651338970794467628, 3139712307754324086, 3063815163708607183, 6159977756260854467,
     2719514363264438289]"
  by (simp add: keccak_round_eval)

lemma keccak_message_rounds_1:
  "keccak_rounds [6, 7, 8, 9, 10, 11]
    [18072874837061022489, 15889339588963471065, 8479033973281282720, 11157094592819553063,
     2058149732674453843, 6076096818180581686, 5764988667205026248, 9203320864417275872,
     1265792235850102556, 4262791726380539164, 4682762323761455300, 10197569634432966212,
     5359758156040822101, 13794896850330975018, 2201535097876771023, 6794446107738613626,
     4834703056119045408, 12135560260619857344, 4078885333102299478, 12848851327133845260,
     6651338970794467628, 3139712307754324086, 3063815163708607183, 6159977756260854467,
     2719514363264438289] =
    [11787875197477452210, 14903229132771446777, 5008043069211850045, 9936611130801822899,
     10370862731510564052, 5430372298429056755, 12704799374848954179, 16446461316651344090,
     10780651014773534938, 11885721455489767458, 1124139529399718095, 13154520342572261608,
     2013878412277618355, 8811736422306223106, 8612190632137625524, 3573811269833886373,
     11507269558989473202, 3827218510262110276, 17713677942281926952, 14262629884194438924,
     2393742609467476471, 16385340417233869735, 15049201945906193182, 5106692556458206313,
     1965733690878572153]"
  by (simp add: keccak_round_eval)

lemma keccak_message_rounds_2:
  "keccak_rounds [12, 13, 14, 15, 16, 17]
    [11787875197477452210, 14903229132771446777, 5008043069211850045, 9936611130801822899,
     10370862731510564052, 5430372298429056755, 12704799374848954179, 16446461316651344090,
     10780651014773534938, 11885721455489767458, 1124139529399718095, 13154520342572261608,
     2013878412277618355, 8811736422306223106, 8612190632137625524, 3573811269833886373,
     11507269558989473202, 3827218510262110276, 17713677942281926952, 14262629884194438924,
     2393742609467476471, 16385340417233869735, 15049201945906193182, 5106692556458206313,
     1965733690878572153] =
    [15181708209008818976, 17421041639523677393, 1503584774477798433, 8438168632341478185,
     4348280152533438140, 14763425833575962004, 11837702610503403564, 551571287025036629,
     11299486445602613186, 2817753471747584396, 13752472527573302737, 5807687538790791223,
     16327191291136894604, 17536054817817353982, 12711894285050659942,
     11997774689185677425, 14343088457064667374, 1162727297682210425, 16039976803074342099,
     9515448135663443485, 14673009774882017301, 3648155490321706740, 16958589515619186843,
     15810228480061174649, 10018951711787431716]"
  by (simp add: keccak_round_eval)

lemma keccak_message_rounds_3:
  "keccak_rounds [18, 19, 20, 21, 22, 23]
    [15181708209008818976, 17421041639523677393, 1503584774477798433, 8438168632341478185,
     4348280152533438140, 14763425833575962004, 11837702610503403564, 551571287025036629,
     11299486445602613186, 2817753471747584396, 13752472527573302737, 5807687538790791223,
     16327191291136894604, 17536054817817353982, 12711894285050659942,
     11997774689185677425, 14343088457064667374, 1162727297682210425, 16039976803074342099,
     9515448135663443485, 14673009774882017301, 3648155490321706740, 16958589515619186843,
     15810228480061174649, 10018951711787431716] =
    [5353301936459891582, 10524647555259770152, 1787621719764949990, 12041018318688483240,
     208942576275404202, 12410294460432490369, 14249172934258424989, 10304178876127658899,
     14147043065070334334, 17636218142068873691, 16280225040040092300,
     17529779125506728000, 9993654272475768677, 15817616172014139864, 13789546994897447394,
     9842545350656258462, 3732531287848071862, 646183330696736348, 8215338564290851550,
     3278008117332444178, 12048863495878756384, 9150629677126569335, 8010502141422521846,
     15756181033057863384, 15357097117299094419]"
  by (simp add: keccak_round_eval)

lemma keccak_message_digest:
  "keccak_256_digest
    [1, 0, 0, 0, 0, 0, 0, 0, 0, 0, 0, 0, 0, 0, 0, 0, 105, 168, 0, 0, 0, 0, 0, 0, 255, 255,
     231, 137, 4, 35, 199, 138, 4, 0, 0, 0, 97, 118, 97, 120, 0, 0, 0, 0, 5, 0, 0, 0, 104,
     101, 108, 108, 111, 0, 0, 0, 0] =
    [126, 67, 26, 138, 191, 191, 74, 74, 40, 37, 113, 133, 48, 15, 15, 146, 230, 219, 92,
     159, 123, 232, 206, 24, 168, 247, 101, 99, 93, 74, 26, 167]"
proof -
  have "length (keccak_pad
    [1, 0, 0, 0, 0, 0, 0, 0, 0, 0, 0, 0, 0, 0, 0, 0, 105, 168, 0, 0, 0, 0, 0, 0, 255, 255,
     231, 137, 4, 35, 199, 138, 4, 0, 0, 0, 97, 118, 97, 120, 0, 0, 0, 0, 5, 0, 0, 0, 104,
     101, 108, 108, 111, 0, 0, 0, 0]) = 136"
    by (simp add: keccak_pad_def)
  then have "keccak_256_digest
    [1, 0, 0, 0, 0, 0, 0, 0, 0, 0, 0, 0, 0, 0, 0, 0, 105, 168, 0, 0, 0, 0, 0, 0, 255, 255,
     231, 137, 4, 35, 199, 138, 4, 0, 0, 0, 97, 118, 97, 120, 0, 0, 0, 0, 5, 0, 0, 0, 104,
     101, 108, 108, 111, 0, 0, 0, 0] =
    squeeze32 (keccak_f
    [1, 0, 43113, 9999999999999999999, 8674344516276191236, 21474836480, 478560413032, 256,
     0, 0, 0, 0, 0, 0, 0, 0, 9223372036854775808, 0, 0, 0, 0, 0, 0, 0, 0])"
    by (simp only: keccak_256_digest_def absorb_one_block keccak_message_block)
  also have "keccak_f
    [1, 0, 43113, 9999999999999999999, 8674344516276191236, 21474836480, 478560413032, 256,
     0, 0, 0, 0, 0, 0, 0, 0, 9223372036854775808, 0, 0, 0, 0, 0, 0, 0, 0] =
    [5353301936459891582, 10524647555259770152, 1787621719764949990, 12041018318688483240,
     208942576275404202, 12410294460432490369, 14249172934258424989, 10304178876127658899,
     14147043065070334334, 17636218142068873691, 16280225040040092300,
     17529779125506728000, 9993654272475768677, 15817616172014139864, 13789546994897447394,
     9842545350656258462, 3732531287848071862, 646183330696736348, 8215338564290851550,
     3278008117332444178, 12048863495878756384, 9150629677126569335, 8010502141422521846,
     15756181033057863384, 15357097117299094419]"
    by (simp only: keccak_f_groups keccak_message_rounds_0 keccak_message_rounds_1 keccak_message_rounds_2 keccak_message_rounds_3)
  also have "squeeze32
    [5353301936459891582, 10524647555259770152, 1787621719764949990, 12041018318688483240,
     208942576275404202, 12410294460432490369, 14249172934258424989, 10304178876127658899,
     14147043065070334334, 17636218142068873691, 16280225040040092300,
     17529779125506728000, 9993654272475768677, 15817616172014139864, 13789546994897447394,
     9842545350656258462, 3732531287848071862, 646183330696736348, 8215338564290851550,
     3278008117332444178, 12048863495878756384, 9150629677126569335, 8010502141422521846,
     15756181033057863384, 15357097117299094419] =
    [126, 67, 26, 138, 191, 191, 74, 74, 40, 37, 113, 133, 48, 15, 15, 146, 230, 219, 92,
     159, 123, 232, 206, 24, 168, 247, 101, 99, 93, 74, 26, 167]"
    by (simp add: squeeze32_def le_bytes_numeral)
  finally show ?thesis .
qed

subsection \<open>Evaluating SHA-256\<close>

lemma not32_numeral: "not32 x = 4294967295 - x"
  by (simp add: not32_def)

lemma add32_numeral: "add32 x y = (x + y) mod 4294967296"
  by (simp add: add32_def)

lemmas sha256_round_eval =
  add32_numeral not32_numeral rotr32_def Ch_def Maj_def Sigma0_def Sigma1_def sigma0_def
  sigma1_def

lemma sha256_rounds_append:
  "sha256_rounds (ks @ ks') ws = sha256_rounds ks' (sha256_rounds ks ws)"
  by (induction ks ws rule: sha256_rounds.induct) simp_all

lemma sha256_K_groups:
  "sha256_K =
    [1116352408, 1899447441, 3049323471, 3921009573, 961987163, 1508970993, 2453635748,
     2870763221, 3624381080, 310598401, 607225278, 1426881987, 1925078388, 2162078206,
     2614888103, 3248222580] @
    [3835390401, 4022224774, 264347078, 604807628, 770255983, 1249150122, 1555081692,
     1996064986, 2554220882, 2821834349, 2952996808, 3210313671, 3336571891, 3584528711,
     113926993, 338241895] @
    [666307205, 773529912, 1294757372, 1396182291, 1695183700, 1986661051, 2177026350,
     2456956037, 2730485921, 2820302411, 3259730800, 3345764771, 3516065817, 3600352804,
     4094571909, 275423344] @
    [430227734, 506948616, 659060556, 883997877, 958139571, 1322822218, 1537002063,
     1747873779, 1955562222, 2024104815, 2227730452, 2361852424, 2428436474, 2756734187,
     3204031479, 3329325298]"
  by (simp add: sha256_K_def)

lemma sha256_one_block: "length p = 64 \<Longrightarrow> sha256_blocks H p = sha256_block H p"
  by (simp add: sha256_blocks.simps [of H p] sha256_blocks.simps [of _ "[]"])

lemma sha256_message_words:
  "be_words (sha256_pad
    [1, 0, 0, 0, 0, 0, 0, 0, 0, 0, 0, 0, 0, 0, 0, 0, 105, 168, 0, 0, 0, 0, 0, 0, 255, 255,
     231, 137, 4, 35, 199, 138, 4, 97, 118, 97, 120, 0, 5, 0, 104, 101, 108, 108, 111, 0, 0]) =
    [16777216, 0, 0, 0, 1772617728, 0, 4294961033, 69453706, 73496161, 2013267200,
     1751477356, 1862271104, 0, 0, 0, 376]"
  by (simp add: sha256_pad_def be_bytes_def le_bytes_numeral replicate_numeral)

lemma sha256_message_rounds_0:
  "sha256_rounds
    [1116352408, 1899447441, 3049323471, 3921009573, 961987163, 1508970993, 2453635748,
     2870763221, 3624381080, 310598401, 607225278, 1426881987, 1925078388, 2162078206,
     2614888103, 3248222580]
    ([16777216, 0, 0, 0, 1772617728, 0, 4294961033, 69453706, 73496161, 2013267200,
     1751477356, 1862271104, 0, 0, 0, 376],
     [1779033703, 3144134277, 1013904242, 2773480762, 1359893119, 2600822924, 528734635,
     1541459225]) =
    ([2030044416, 1761111148, 1899918369, 1233637858, 1580259621, 146901192, 1561342047,
     297774812, 2587689629, 2595740528, 3762768696, 3827420576, 1434781377, 1013815110,
     634097724, 571729373],
     [1865616315, 4125099158, 3299614916, 691115921, 2353055469, 2036305662, 2211456522,
     691895583])"
  by (simp add: sha256_round_eval)

lemma sha256_message_rounds_1:
  "sha256_rounds
    [3835390401, 4022224774, 264347078, 604807628, 770255983, 1249150122, 1555081692,
     1996064986, 2554220882, 2821834349, 2952996808, 3210313671, 3336571891, 3584528711,
     113926993, 338241895]
    ([2030044416, 1761111148, 1899918369, 1233637858, 1580259621, 146901192, 1561342047,
     297774812, 2587689629, 2595740528, 3762768696, 3827420576, 1434781377, 1013815110,
     634097724, 571729373],
     [1865616315, 4125099158, 3299614916, 691115921, 2353055469, 2036305662, 2211456522,
     691895583]) =
    ([2627644563, 2842384249, 322454582, 3619275018, 3094554253, 3224299918, 3363904803,
     3237596144, 4117744034, 1236059543, 66965329, 1621891763, 1645950494, 738498563,
     738913187, 2518462991],
     [1012188519, 2167643739, 2866913321, 1259352764, 982406478, 1943788673, 348790882,
     3080748557])"
  by (simp add: sha256_round_eval)

lemma sha256_message_rounds_2:
  "sha256_rounds
    [666307205, 773529912, 1294757372, 1396182291, 1695183700, 1986661051, 2177026350,
     2456956037, 2730485921, 2820302411, 3259730800, 3345764771, 3516065817, 3600352804,
     4094571909, 275423344]
    ([2627644563, 2842384249, 322454582, 3619275018, 3094554253, 3224299918, 3363904803,
     3237596144, 4117744034, 1236059543, 66965329, 1621891763, 1645950494, 738498563,
     738913187, 2518462991],
     [1012188519, 2167643739, 2866913321, 1259352764, 982406478, 1943788673, 348790882,
     3080748557]) =
    ([1117534595, 4229554795, 2397096777, 3438963615, 558644759, 2123549287, 2193748361,
     3911619992, 3475112099, 1115599741, 2112263469, 247117775, 2662513312, 3038106964,
     1086438398, 3055725555],
     [677535718, 236128190, 271882542, 3474547322, 942432381, 107590654, 1242385325,
     3470458365])"
  by (simp add: sha256_round_eval)

lemma sha256_message_rounds_3:
  "sha256_rounds
    [430227734, 506948616, 659060556, 883997877, 958139571, 1322822218, 1537002063,
     1747873779, 1955562222, 2024104815, 2227730452, 2361852424, 2428436474, 2756734187,
     3204031479, 3329325298]
    ([1117534595, 4229554795, 2397096777, 3438963615, 558644759, 2123549287, 2193748361,
     3911619992, 3475112099, 1115599741, 2112263469, 247117775, 2662513312, 3038106964,
     1086438398, 3055725555],
     [677535718, 236128190, 271882542, 3474547322, 942432381, 107590654, 1242385325,
     3470458365]) =
    ([546157989, 717117534, 3337282796, 2026536394, 2029189112, 2950079914, 3885126439,
     1850948306, 3150168134, 4087269260, 3236982168, 1056687457, 1417044236, 3508622086,
     119320990, 418925845],
     [4275876437, 3362851035, 651660265, 327212794, 3995764993, 3792458631, 3837888182,
     4050169374])"
  by (simp add: sha256_round_eval)

lemma sha256_message_digest:
  "sha256
    [1, 0, 0, 0, 0, 0, 0, 0, 0, 0, 0, 0, 0, 0, 0, 0, 105, 168, 0, 0, 0, 0, 0, 0, 255, 255,
     231, 137, 4, 35, 199, 138, 4, 97, 118, 97, 120, 0, 5, 0, 104, 101, 108, 108, 111, 0, 0] =
    [104, 230, 152, 188, 131, 216, 183, 96, 99, 70, 127, 91, 184, 208, 212, 52, 63, 56,
     219, 128, 125, 17, 188, 19, 4, 69, 96, 97, 77, 73, 123, 55]"
proof -
  have "length (sha256_pad
    [1, 0, 0, 0, 0, 0, 0, 0, 0, 0, 0, 0, 0, 0, 0, 0, 105, 168, 0, 0, 0, 0, 0, 0, 255, 255,
     231, 137, 4, 35, 199, 138, 4, 97, 118, 97, 120, 0, 5, 0, 104, 101, 108, 108, 111, 0, 0]) = 64"
    by (simp add: sha256_pad_def be_bytes_def)
  then have "sha256
    [1, 0, 0, 0, 0, 0, 0, 0, 0, 0, 0, 0, 0, 0, 0, 0, 105, 168, 0, 0, 0, 0, 0, 0, 255, 255,
     231, 137, 4, 35, 199, 138, 4, 97, 118, 97, 120, 0, 5, 0, 104, 101, 108, 108, 111, 0, 0] =
    concat (map (be_bytes 4) (map2 add32 sha256_H0 (snd (sha256_rounds sha256_K
    ([16777216, 0, 0, 0, 1772617728, 0, 4294961033, 69453706, 73496161, 2013267200,
     1751477356, 1862271104, 0, 0, 0, 376],
     sha256_H0)))))"
    by (simp only: sha256_def sha256_one_block sha256_block_def sha256_message_words)
  also have "sha256_rounds sha256_K
    ([16777216, 0, 0, 0, 1772617728, 0, 4294961033, 69453706, 73496161, 2013267200,
     1751477356, 1862271104, 0, 0, 0, 376],
     sha256_H0) =
    ([546157989, 717117534, 3337282796, 2026536394, 2029189112, 2950079914, 3885126439,
     1850948306, 3150168134, 4087269260, 3236982168, 1056687457, 1417044236, 3508622086,
     119320990, 418925845],
     [4275876437, 3362851035, 651660265, 327212794, 3995764993, 3792458631, 3837888182,
     4050169374])"
    by (simp only: sha256_K_groups sha256_rounds_append sha256_H0_def sha256_message_rounds_0 sha256_message_rounds_1 sha256_message_rounds_2 sha256_message_rounds_3)
  also have "concat (map (be_bytes 4) (map2 add32 sha256_H0 (snd
    ([546157989, 717117534, 3337282796, 2026536394, 2029189112, 2950079914, 3885126439,
     1850948306, 3150168134, 4087269260, 3236982168, 1056687457, 1417044236, 3508622086,
     119320990, 418925845],
     [4275876437, 3362851035, 651660265, 327212794, 3995764993, 3792458631, 3837888182,
     4050169374])))) =
    [104, 230, 152, 188, 131, 216, 183, 96, 99, 70, 127, 91, 184, 208, 212, 52, 63, 56,
     219, 128, 125, 17, 188, 19, 4, 69, 96, 97, 77, 73, 123, 55]"
    by (simp add: sha256_H0_def add32_numeral be_bytes_def le_bytes_numeral)
  finally show ?thesis .
qed

subsection \<open>Known answers\<close>

text \<open>
  The two hash functions on the inputs whose digests are published: Keccak-256 of the empty
  input, and SHA-256 of "abc".
\<close>

lemma keccak_empty_block:
  "xor_block (replicate 25 0) (lanes_of_bytes (keccak_pad
    [])) =
    [1, 0, 0, 0, 0, 0, 0, 0, 0, 0, 0, 0, 0, 0, 0, 0, 9223372036854775808, 0, 0, 0, 0, 0, 0,
     0, 0]"
  by (simp add: keccak_pad_def xor_block_def replicate_numeral)

lemma keccak_empty_rounds_0:
  "keccak_rounds [0, 1, 2, 3, 4, 5]
    [1, 0, 0, 0, 0, 0, 0, 0, 0, 0, 0, 0, 0, 0, 0, 0, 9223372036854775808, 0, 0, 0, 0, 0, 0,
     0, 0] =
    [248066060412482913, 10809642231442205384, 5504895099598155415, 2584332703152910123,
     10449879252273190592, 13355132533173292400, 16887410369553470650, 1390404604944908871,
     10467819199160078225, 12586248386544345989, 13287309445471910499, 9168388512907289048,
     10117223767413104261, 15763460986669702239, 10756186891316440689, 4278624213941474887,
     14275455272196532991, 18250878328984007816, 4482727192120861170, 9721683024389909677,
     9163772564863624264, 8489753604216688595, 816201186782976613, 1144184611068540487,
     4128866423754115227]"
  by (simp add: keccak_round_eval)

lemma keccak_empty_rounds_1:
  "keccak_rounds [6, 7, 8, 9, 10, 11]
    [248066060412482913, 10809642231442205384, 5504895099598155415, 2584332703152910123,
     10449879252273190592, 13355132533173292400, 16887410369553470650, 1390404604944908871,
     10467819199160078225, 12586248386544345989, 13287309445471910499, 9168388512907289048,
     10117223767413104261, 15763460986669702239, 10756186891316440689, 4278624213941474887,
     14275455272196532991, 18250878328984007816, 4482727192120861170, 9721683024389909677,
     9163772564863624264, 8489753604216688595, 816201186782976613, 1144184611068540487,
     4128866423754115227] =
    [16291156846118844451, 9692757143822035377, 17748466164917623592, 18297723408675364712,
     5768111022144358297, 5032647943730211172, 240223639921337555, 3573006762761062315,
     4418081664467045005, 14050874540553342331, 10482449059741954494, 13992079101437996990,
     2435977504749834253, 10982271880190543118, 11974228964236697225, 15115158931448373871,
     12735725188152392398, 7627438592320754813, 272652177933322935, 14245570792134504674,
     8744534987003128554, 11356875620725102920, 8928226865784257667, 1524680525473545806,
     2896276078172484414]"
  by (simp add: keccak_round_eval)

lemma keccak_empty_rounds_2:
  "keccak_rounds [12, 13, 14, 15, 16, 17]
    [16291156846118844451, 9692757143822035377, 17748466164917623592, 18297723408675364712,
     5768111022144358297, 5032647943730211172, 240223639921337555, 3573006762761062315,
     4418081664467045005, 14050874540553342331, 10482449059741954494, 13992079101437996990,
     2435977504749834253, 10982271880190543118, 11974228964236697225, 15115158931448373871,
     12735725188152392398, 7627438592320754813, 272652177933322935, 14245570792134504674,
     8744534987003128554, 11356875620725102920, 8928226865784257667, 1524680525473545806,
     2896276078172484414] =
    [534296193886098135, 3695287213502380591, 11532049842336470888, 17974523857070849737,
     12954850201481240735, 5716772798672216727, 2583007236467463893, 10427970853733301948,
     700439106234402195, 7192762512095310632, 4383158246966191391, 18315691205404178545,
     18043931791961935518, 16287759594864535142, 15352249056180256782,
     18367201066277418680, 6748360514621293390, 9837915013220625665, 12422998273549796530,
     12621865645966804366, 4594662070598184093, 8622633690173154066, 12904333489760771204,
     385777527094370260, 6037929239432104378]"
  by (simp add: keccak_round_eval)

lemma keccak_empty_rounds_3:
  "keccak_rounds [18, 19, 20, 21, 22, 23]
    [534296193886098135, 3695287213502380591, 11532049842336470888, 17974523857070849737,
     12954850201481240735, 5716772798672216727, 2583007236467463893, 10427970853733301948,
     700439106234402195, 7192762512095310632, 4383158246966191391, 18315691205404178545,
     18043931791961935518, 16287759594864535142, 15352249056180256782,
     18367201066277418680, 6748360514621293390, 9837915013220625665, 12422998273549796530,
     12621865645966804366, 4594662070598184093, 8622633690173154066, 12904333489760771204,
     385777527094370260, 6037929239432104378] =
    [4333579421379646149, 13836122230913597074, 4262519377828905189, 8116759062988257915,
     8406387447366859581, 14671339323370021561, 2243375101132795228, 9371364203318886753,
     9347994793612953298, 12814238161780307547, 4391692840257016808, 4309499098775122448,
     13438072403645551266, 18018124564071650747, 4323130096954625545, 16970298442240338249,
     1971761234120675839, 450719451514497906, 18340686150147091359, 11254645818134300982,
     16062291397582171322, 1601982631079003425, 7734681229251997073, 13256946727218518206,
     11816912122432958423]"
  by (simp add: keccak_round_eval)

lemma keccak_empty_digest:
  "keccak_256_digest
    [] =
    [197, 210, 70, 1, 134, 247, 35, 60, 146, 126, 125, 178, 220, 199, 3, 192, 229, 0, 182,
     83, 202, 130, 39, 59, 123, 250, 216, 4, 93, 133, 164, 112]"
proof -
  have "length (keccak_pad
    []) = 136"
    by (simp add: keccak_pad_def)
  then have "keccak_256_digest
    [] =
    squeeze32 (keccak_f
    [1, 0, 0, 0, 0, 0, 0, 0, 0, 0, 0, 0, 0, 0, 0, 0, 9223372036854775808, 0, 0, 0, 0, 0, 0,
     0, 0])"
    by (simp only: keccak_256_digest_def absorb_one_block keccak_empty_block)
  also have "keccak_f
    [1, 0, 0, 0, 0, 0, 0, 0, 0, 0, 0, 0, 0, 0, 0, 0, 9223372036854775808, 0, 0, 0, 0, 0, 0,
     0, 0] =
    [4333579421379646149, 13836122230913597074, 4262519377828905189, 8116759062988257915,
     8406387447366859581, 14671339323370021561, 2243375101132795228, 9371364203318886753,
     9347994793612953298, 12814238161780307547, 4391692840257016808, 4309499098775122448,
     13438072403645551266, 18018124564071650747, 4323130096954625545, 16970298442240338249,
     1971761234120675839, 450719451514497906, 18340686150147091359, 11254645818134300982,
     16062291397582171322, 1601982631079003425, 7734681229251997073, 13256946727218518206,
     11816912122432958423]"
    by (simp only: keccak_f_groups keccak_empty_rounds_0 keccak_empty_rounds_1 keccak_empty_rounds_2 keccak_empty_rounds_3)
  also have "squeeze32
    [4333579421379646149, 13836122230913597074, 4262519377828905189, 8116759062988257915,
     8406387447366859581, 14671339323370021561, 2243375101132795228, 9371364203318886753,
     9347994793612953298, 12814238161780307547, 4391692840257016808, 4309499098775122448,
     13438072403645551266, 18018124564071650747, 4323130096954625545, 16970298442240338249,
     1971761234120675839, 450719451514497906, 18340686150147091359, 11254645818134300982,
     16062291397582171322, 1601982631079003425, 7734681229251997073, 13256946727218518206,
     11816912122432958423] =
    [197, 210, 70, 1, 134, 247, 35, 60, 146, 126, 125, 178, 220, 199, 3, 192, 229, 0, 182,
     83, 202, 130, 39, 59, 123, 250, 216, 4, 93, 133, 164, 112]"
    by (simp add: squeeze32_def le_bytes_numeral)
  finally show ?thesis .
qed

lemma keccak_256_empty:
  "keccak_256 [] = ''c5d2460186f7233c927e7db2dcc703c0e500b653ca82273b7bfad8045d85a470''"
  by (simp only: keccak_256_def keccak_empty_digest) (simp add: hex_encode_def hex_of_byte_def)

lemma sha256_abc_words:
  "be_words (sha256_pad
    [97, 98, 99]) =
    [1633837952, 0, 0, 0, 0, 0, 0, 0, 0, 0, 0, 0, 0, 0, 0, 24]"
  by (simp add: sha256_pad_def be_bytes_def le_bytes_numeral replicate_numeral)

lemma sha256_abc_rounds_0:
  "sha256_rounds
    [1116352408, 1899447441, 3049323471, 3921009573, 961987163, 1508970993, 2453635748,
     2870763221, 3624381080, 310598401, 607225278, 1426881987, 1925078388, 2162078206,
     2614888103, 3248222580]
    ([1633837952, 0, 0, 0, 0, 0, 0, 0, 0, 0, 0, 0, 0, 0, 0, 24],
     [1779033703, 3144134277, 1013904242, 2773480762, 1359893119, 2600822924, 528734635,
     1541459225]) =
    ([1633837952, 983040, 2108187653, 1610613702, 1050508152, 25426944, 316456923,
     3806512014, 3357629466, 3073800610, 3854317833, 845560923, 2636160359, 3968280267,
     1881225380, 3552024379],
     [2969183118, 3227803614, 3643992854, 2274437520, 123276749, 194179596, 1952073950,
     509051416])"
  by (simp add: sha256_round_eval)

lemma sha256_abc_rounds_1:
  "sha256_rounds
    [3835390401, 4022224774, 264347078, 604807628, 770255983, 1249150122, 1555081692,
     1996064986, 2554220882, 2821834349, 2952996808, 3210313671, 3336571891, 3584528711,
     113926993, 338241895]
    ([1633837952, 983040, 2108187653, 1610613702, 1050508152, 25426944, 316456923,
     3806512014, 3357629466, 3073800610, 3854317833, 845560923, 2636160359, 3968280267,
     1881225380, 3552024379],
     [2969183118, 3227803614, 3643992854, 2274437520, 123276749, 194179596, 1952073950,
     509051416]) =
    ([2482346367, 996719219, 2952069057, 4043988066, 176896406, 1924104970, 2483675966,
     610538786, 2672279444, 4037431130, 1042573945, 657669027, 206005234, 2215296807,
     2049510749, 106709978],
     [1941126133, 3935906338, 2684750640, 909411017, 3126399250, 17410874, 2917635127,
     1628611511])"
  by (simp add: sha256_round_eval)

lemma sha256_abc_rounds_2:
  "sha256_rounds
    [666307205, 773529912, 1294757372, 1396182291, 1695183700, 1986661051, 2177026350,
     2456956037, 2730485921, 2820302411, 3259730800, 3345764771, 3516065817, 3600352804,
     4094571909, 275423344]
    ([2482346367, 996719219, 2952069057, 4043988066, 176896406, 1924104970, 2483675966,
     610538786, 2672279444, 4037431130, 1042573945, 657669027, 206005234, 2215296807,
     2049510749, 106709978],
     [1941126133, 3935906338, 2684750640, 909411017, 3126399250, 17410874, 2917635127,
     1628611511]) =
    ([4215179723, 3430291419, 3118885940, 2845390439, 2226839261, 3256115900, 344409900,
     2987358873, 4015503821, 3957764664, 2682456414, 2025622859, 2755645205, 1720397816,
     4004225740, 313650667],
     [1098003085, 2706117808, 1923828625, 643991573, 4274981830, 3581645993, 3077922209,
     2819559920])"
  by (simp add: sha256_round_eval)

lemma sha256_abc_rounds_3:
  "sha256_rounds
    [430227734, 506948616, 659060556, 883997877, 958139571, 1322822218, 1537002063,
     1747873779, 1955562222, 2024104815, 2227730452, 2361852424, 2428436474, 2756734187,
     3204031479, 3329325298]
    ([4215179723, 3430291419, 3118885940, 2845390439, 2226839261, 3256115900, 344409900,
     2987358873, 4015503821, 3957764664, 2682456414, 2025622859, 2755645205, 1720397816,
     4004225740, 313650667],
     [1098003085, 2706117808, 1923828625, 643991573, 4274981830, 3581645993, 3077922209,
     2819559920]) =
    ([3087686196, 484939733, 823116247, 2736351438, 2106384450, 3582536839, 250799243,
     2252827306, 4215000474, 3786143489, 2633077969, 1202520861, 2860590881, 70651292,
     3680168089, 3194403987],
     [1349398616, 3550093669, 80891244, 3093179625, 1593118500, 4212265488, 2492278198,
     2518632596])"
  by (simp add: sha256_round_eval)

lemma sha256_abc_digest:
  "sha256
    [97, 98, 99] =
    [186, 120, 22, 191, 143, 1, 207, 234, 65, 65, 64, 222, 93, 174, 34, 35, 176, 3, 97,
     163, 150, 23, 122, 156, 180, 16, 255, 97, 242, 0, 21, 173]"
proof -
  have "length (sha256_pad
    [97, 98, 99]) = 64"
    by (simp add: sha256_pad_def be_bytes_def)
  then have "sha256
    [97, 98, 99] =
    concat (map (be_bytes 4) (map2 add32 sha256_H0 (snd (sha256_rounds sha256_K
    ([1633837952, 0, 0, 0, 0, 0, 0, 0, 0, 0, 0, 0, 0, 0, 0, 24],
     sha256_H0)))))"
    by (simp only: sha256_def sha256_one_block sha256_block_def sha256_abc_words)
  also have "sha256_rounds sha256_K
    ([1633837952, 0, 0, 0, 0, 0, 0, 0, 0, 0, 0, 0, 0, 0, 0, 24],
     sha256_H0) =
    ([3087686196, 484939733, 823116247, 2736351438, 2106384450, 3582536839, 250799243,
     2252827306, 4215000474, 3786143489, 2633077969, 1202520861, 2860590881, 70651292,
     3680168089, 3194403987],
     [1349398616, 3550093669, 80891244, 3093179625, 1593118500, 4212265488, 2492278198,
     2518632596])"
    by (simp only: sha256_K_groups sha256_rounds_append sha256_H0_def sha256_abc_rounds_0 sha256_abc_rounds_1 sha256_abc_rounds_2 sha256_abc_rounds_3)
  also have "concat (map (be_bytes 4) (map2 add32 sha256_H0 (snd
    ([3087686196, 484939733, 823116247, 2736351438, 2106384450, 3582536839, 250799243,
     2252827306, 4215000474, 3786143489, 2633077969, 1202520861, 2860590881, 70651292,
     3680168089, 3194403987],
     [1349398616, 3550093669, 80891244, 3093179625, 1593118500, 4212265488, 2492278198,
     2518632596])))) =
    [186, 120, 22, 191, 143, 1, 207, 234, 65, 65, 64, 222, 93, 174, 34, 35, 176, 3, 97,
     163, 150, 23, 122, 156, 180, 16, 255, 97, 242, 0, 21, 173]"
    by (simp add: sha256_H0_def add32_numeral be_bytes_def le_bytes_numeral)
  finally show ?thesis .
qed

lemma sha256_abc:
  "hex_encode (sha256 (Buffer_from ''abc'')) =
     ''ba7816bf8f01cfea414140de5dae2223b00361a396177a9cb410ff61f20015ad''"
proof -
  have "Buffer_from ''abc'' = [97, 98, 99]"
    by (simp add: Buffer_from_def)
  then show ?thesis
    by (simp only: sha256_abc_digest) (simp add: hex_encode_def hex_of_byte_def)
qed

subsection \<open>The two message hashes of the source\<close>

lemma toArrayLike_le_length:
  "0 < n \<Longrightarrow> toArrayLike_le x n = Inr b \<Longrightarrow> length b = n"
  by (simp add: toArrayLike_le_eq_Inr)

lemma encodeLengthPrefixed_eq_Inr:
  "encodeLengthPrefixed data = Inr b \<longleftrightarrow>
     length data < 2 ^ 32 \<and> b = le_bytes 4 (length data) @ data"
  by (auto simp: encodeLengthPrefixed_def writeUInt32LE_def and_then_eq_Inr)

lemma writeUInt16LE_eq_Inr: "writeUInt16LE v = Inr b \<longleftrightarrow> v < 2 ^ 16 \<and> b = le_bytes 2 v"
  by (auto simp: writeUInt16LE_def)

lemma message_hash_message:
  "createMessageHash 1 43113 9999999999999999999 (Buffer_from ''avax'') []
     (Buffer_from ''hello'') [] =
   Inr [126, 67, 26, 138, 191, 191, 74, 74, 40, 37, 113, 133, 48, 15, 15, 146, 230, 219, 92,
        159, 123, 232, 206, 24, 168, 247, 101, 99, 93, 74, 26, 167]"
proof -
  have "createMessageHash_allData 1 43113 9999999999999999999 (Buffer_from ''avax'') []
          (Buffer_from ''hello'') [] =
        Inr [1, 0, 0, 0, 0, 0, 0, 0, 0, 0, 0, 0, 0, 0, 0, 0, 105, 168, 0, 0, 0, 0, 0, 0,
             255, 255, 231, 137, 4, 35, 199, 138, 4, 0, 0, 0, 97, 118, 97, 120, 0, 0, 0, 0,
             5, 0, 0, 0, 104, 101, 108, 108, 111, 0, 0, 0, 0]"
    using createMessageHash_allData_fits [of 1 43113 9999999999999999999
        "Buffer_from ''avax''" "[]" "Buffer_from ''hello''" "[]"]
    by (simp add: le_bytes_numeral Buffer_from_def)
  then show ?thesis
    by (simp only: createMessageHash_eq and_then_Inr keccak_message_digest)
qed

lemma plan_message_hash_message:
  "plan_createMessageHash 1 43113 9999999999999999999 (Buffer_from ''avax'') []
     (Buffer_from ''hello'') [] =
   Inr [104, 230, 152, 188, 131, 216, 183, 96, 99, 70, 127, 91, 184, 208, 212, 52, 63, 56,
        219, 128, 125, 17, 188, 19, 4, 69, 96, 97, 77, 73, 123, 55]"
proof -
  have "plan_hashed_bytes 1 43113 9999999999999999999 (Buffer_from ''avax'') []
          (Buffer_from ''hello'') [] =
        Inr [1, 0, 0, 0, 0, 0, 0, 0, 0, 0, 0, 0, 0, 0, 0, 0, 105, 168, 0, 0, 0, 0, 0, 0,
             255, 255, 231, 137, 4, 35, 199, 138, 4, 97, 118, 97, 120, 0, 5, 0, 104, 101,
             108, 108, 111, 0, 0]"
    by (simp add: plan_hashed_bytes_def writeUInt16LE_def le_bytes_numeral Buffer_from_def)
  then show ?thesis
    by (simp only: plan_createMessageHash_def and_then_Inr sha256_message_digest)
qed

text \<open>
  C3, as the claim states it, fails: on the message with transaction id 1, source chain
  43113, destination chain 9999999999999999999, sender "avax", no recipient, on-chain data
  "hello" and no off-chain data, the SDK's \<open>createMessageHash\<close> returns the digest
  7e431a8a...5d4a1aa7 and the plan's returns 68e698bc...4d497b37.
\<close>

theorem message_hashes_differ_counterexample:
  "createMessageHash 1 43113 9999999999999999999 (Buffer_from ''avax'') []
     (Buffer_from ''hello'') []
   \<noteq> plan_createMessageHash 1 43113 9999999999999999999 (Buffer_from ''avax'') []
       (Buffer_from ''hello'') []"
  by (simp only: message_hash_message plan_message_hash_message) simp

text \<open>
  C3, amended. The two \<open>createMessageHash\<close> functions of the source are different
  functions. The SDK's is Keccak-256 over the encoding of section 4.1, with a 4-byte
  length before each byte field; the plan's is SHA-256 over an encoding with a 1-byte
  length before sender and recipient and a 2-byte length before on-chain and off-chain
  data. On every message that both accept, the two byte strings that are hashed begin with
  the same 32 bytes (transaction id, source and destination chain id), and the SDK's is
  exactly 10 bytes longer than the plan's: the two functions never hash the same bytes.
\<close>

theorem message_hash_implementations:
  assumes sdk: "createMessageHash txId src dst sender recipient onChainData offChainData
                  = Inr h"
    and plan: "plan_createMessageHash txId src dst sender recipient onChainData offChainData
                  = Inr h'"
  shows "\<exists>x y.
     createMessageHash_allData txId src dst sender recipient onChainData offChainData = Inr x \<and>
     plan_hashed_bytes txId src dst sender recipient onChainData offChainData = Inr y \<and>
     h = Buffer_from_hex (keccak_256 x) \<and> h' = sha256 y \<and>
     take 32 x = take 32 y \<and> length x = length y + 10 \<and> x \<noteq> y"
proof -
  from sdk obtain x where
    x: "createMessageHash_allData txId src dst sender recipient onChainData offChainData = Inr x"
    and h: "h = Buffer_from_hex (keccak_256 x)"
    by (auto simp: createMessageHash_def and_then_eq_Inr)
  from plan obtain y where
    y: "plan_hashed_bytes txId src dst sender recipient onChainData offChainData = Inr y"
    and h': "h' = sha256 y"
    by (auto simp: plan_createMessageHash_def and_then_eq_Inr)
  from x obtain e1 e2 e3 where
    e: "toArrayLike_le txId 16 = Inr e1" "toArrayLike_le src 8 = Inr e2"
       "toArrayLike_le dst 8 = Inr e3"
    and xe: "x = e1 @ e2 @ e3 @ le_bytes 4 (length sender) @ sender
               @ le_bytes 4 (length recipient) @ recipient
               @ le_bytes 4 (length onChainData) @ onChainData
               @ le_bytes 4 (length offChainData) @ offChainData"
    by (auto simp: createMessageHash_allData_def and_then_eq_Inr encodeLengthPrefixed_eq_Inr)
  from y e have ye: "y = e1 @ e2 @ e3 @ [of_nat (length sender)] @ sender
               @ [of_nat (length recipient)] @ recipient
               @ le_bytes 2 (length onChainData) @ onChainData
               @ le_bytes 2 (length offChainData) @ offChainData"
    by (auto simp: plan_hashed_bytes_def and_then_eq_Inr writeUInt16LE_eq_Inr)
  from e have len: "length e1 = 16" "length e2 = 8" "length e3 = 8"
    by (simp_all add: toArrayLike_le_length)
  have "take 32 x = e1 @ e2 @ e3" "take 32 y = e1 @ e2 @ e3"
    using len by (simp_all add: xe ye)
  moreover have l: "length x = length y + 10"
    by (simp add: xe ye)
  moreover from l have "x \<noteq> y" by auto
  ultimately show ?thesis
    using x y h h' by auto
qed

theorem message_hash_implementations_witness:
  "\<exists>x y.
     createMessageHash_allData 1 43113 9999999999999999999 (Buffer_from ''avax'') []
       (Buffer_from ''hello'') [] = Inr x \<and>
     plan_hashed_bytes 1 43113 9999999999999999999 (Buffer_from ''avax'') []
       (Buffer_from ''hello'') [] = Inr y \<and>
     take 32 x = take 32 y \<and> length x = 57 \<and> length y = 47"
proof -
  have x: "createMessageHash_allData 1 43113 9999999999999999999 (Buffer_from ''avax'') []
          (Buffer_from ''hello'') [] =
        Inr [1, 0, 0, 0, 0, 0, 0, 0, 0, 0, 0, 0, 0, 0, 0, 0, 105, 168, 0, 0, 0, 0, 0, 0,
             255, 255, 231, 137, 4, 35, 199, 138, 4, 0, 0, 0, 97, 118, 97, 120, 0, 0, 0, 0,
             5, 0, 0, 0, 104, 101, 108, 108, 111, 0, 0, 0, 0]"
    using createMessageHash_allData_fits [of 1 43113 9999999999999999999
        "Buffer_from ''avax''" "[]" "Buffer_from ''hello''" "[]"]
    by (simp add: le_bytes_numeral Buffer_from_def)
  then have h: "createMessageHash 1 43113 9999999999999999999 (Buffer_from ''avax'') []
      (Buffer_from ''hello'') [] = Inr (keccak_256_digest
        [1, 0, 0, 0, 0, 0, 0, 0, 0, 0, 0, 0, 0, 0, 0, 0, 105, 168, 0, 0, 0, 0, 0, 0,
         255, 255, 231, 137, 4, 35, 199, 138, 4, 0, 0, 0, 97, 118, 97, 120, 0, 0, 0, 0,
         5, 0, 0, 0, 104, 101, 108, 108, 111, 0, 0, 0, 0])"
    by (simp only: createMessageHash_eq and_then_Inr)
  have y: "plan_hashed_bytes 1 43113 9999999999999999999 (Buffer_from ''avax'') []
          (Buffer_from ''hello'') [] =
        Inr [1, 0, 0, 0, 0, 0, 0, 0, 0, 0, 0, 0, 0, 0, 0, 0, 105, 168, 0, 0, 0, 0, 0, 0,
             255, 255, 231, 137, 4, 35, 199, 138, 4, 97, 118, 97, 120, 0, 5, 0, 104, 101,
             108, 108, 111, 0, 0]"
    by (simp add: plan_hashed_bytes_def writeUInt16LE_def le_bytes_numeral Buffer_from_def)
  then have h': "plan_createMessageHash 1 43113 9999999999999999999 (Buffer_from ''avax'') []
      (Buffer_from ''hello'') [] = Inr (sha256
        [1, 0, 0, 0, 0, 0, 0, 0, 0, 0, 0, 0, 0, 0, 0, 0, 105, 168, 0, 0, 0, 0, 0, 0,
         255, 255, 231, 137, 4, 35, 199, 138, 4, 97, 118, 97, 120, 0, 5, 0, 104, 101,
         108, 108, 111, 0, 0])"
    by (simp only: plan_createMessageHash_def and_then_Inr)
  from message_hash_implementations [OF h h'] show ?thesis
    by (auto simp: x y)
qed

end
